theory Spec2Isabelle
  imports Complex_Main "HOL-Library.Word"
begin

section \<open>Layer graphs of the Keras functional API\<close>

text \<open>
  \<^verbatim>\<open>srgan.py\<close> builds its networks by applying layer objects to symbolic tensors.
  A symbolic tensor is the expression that produced it. Only the layers the file
  uses are represented, with the arguments the file passes (every convolution is
  called with \<^verbatim>\<open>padding='same'\<close>, so the padding is not an argument here).
\<close>

type_synonym shape3 = "nat \<times> nat \<times> nat"

datatype activation = relu | tanh_act | sigmoid

datatype tensor =
    Input shape3
  | Conv2D nat nat nat "activation option" tensor
  | Activation activation tensor
  | BatchNormalization real tensor
  | Add tensor tensor
  | UpSampling2D nat tensor
  | LeakyReLU real tensor
  | Dense nat "activation option" tensor

datatype model = Model (inputs: tensor) (outputs: tensor)

subsection \<open>Static shapes\<close>

text \<open>
  The shape rules of the layers, per sample (height, width, channels), as Keras
  computes them when a layer is applied:
  a same-padded convolution yields \<open>(n + stride - 1) div stride\<close> positions,
  \<^verbatim>\<open>UpSampling2D\<close> multiplies both spatial sizes, \<^verbatim>\<open>Dense\<close> replaces the last
  axis, and \<^verbatim>\<open>Add\<close> broadcasts an axis of size 1 and rejects any other mismatch.
  \<open>None\<close> stands for the \<^verbatim>\<open>ValueError\<close> raised on a graph that does not fit.
\<close>

definition conv_output_length :: "nat \<Rightarrow> nat \<Rightarrow> nat" where
  "conv_output_length input_length stride = (input_length + stride - 1) div stride"

definition elemwise_dim :: "nat \<Rightarrow> nat \<Rightarrow> nat option" where
  "elemwise_dim i j =
     (if i = 1 then Some j else if j = 1 then Some i
      else if i \<noteq> j then None else Some i)"

definition elemwise_shape :: "shape3 \<Rightarrow> shape3 \<Rightarrow> shape3 option" where
  "elemwise_shape s1 s2 =
     (case (s1, s2) of ((h1, w1, c1), (h2, w2, c2)) \<Rightarrow>
        (case (elemwise_dim h1 h2, elemwise_dim w1 w2, elemwise_dim c1 c2) of
           (Some h, Some w, Some c) \<Rightarrow> Some (h, w, c)
         | _ \<Rightarrow> None))"

fun output_shape :: "tensor \<Rightarrow> shape3 option" where
  "output_shape (Input s) = Some s"
| "output_shape (Conv2D filters kernel_size strides act x) =
     (case output_shape x of
        None \<Rightarrow> None
      | Some (h, w, c) \<Rightarrow>
          if strides = 0 then None
          else Some (conv_output_length h strides, conv_output_length w strides, filters))"
| "output_shape (Activation a x) = output_shape x"
| "output_shape (BatchNormalization momentum x) = output_shape x"
| "output_shape (Add a b) =
     (case (output_shape a, output_shape b) of
        (Some s1, Some s2) \<Rightarrow> elemwise_shape s1 s2
      | _ \<Rightarrow> None)"
| "output_shape (UpSampling2D sz x) =
     (case output_shape x of
        None \<Rightarrow> None
      | Some (h, w, c) \<Rightarrow> Some (h * sz, w * sz, c))"
| "output_shape (LeakyReLU alpha x) = output_shape x"
| "output_shape (Dense units act x) =
     (case output_shape x of
        None \<Rightarrow> None
      | Some (h, w, c) \<Rightarrow> Some (h, w, units))"

text \<open>The strides of the convolutions (input side first) and the factors of the
  upsampling layers of a graph; a tensor used twice is visited twice.\<close>

fun conv_strides :: "tensor \<Rightarrow> nat list" where
  "conv_strides (Input s) = []"
| "conv_strides (Conv2D filters kernel_size strides act x) = conv_strides x @ [strides]"
| "conv_strides (Activation a x) = conv_strides x"
| "conv_strides (BatchNormalization momentum x) = conv_strides x"
| "conv_strides (Add a b) = conv_strides a @ conv_strides b"
| "conv_strides (UpSampling2D sz x) = conv_strides x"
| "conv_strides (LeakyReLU alpha x) = conv_strides x"
| "conv_strides (Dense units act x) = conv_strides x"

fun upsampling_sizes :: "tensor \<Rightarrow> nat list" where
  "upsampling_sizes (Input s) = []"
| "upsampling_sizes (Conv2D filters kernel_size strides act x) = upsampling_sizes x"
| "upsampling_sizes (Activation a x) = upsampling_sizes x"
| "upsampling_sizes (BatchNormalization momentum x) = upsampling_sizes x"
| "upsampling_sizes (Add a b) = upsampling_sizes a @ upsampling_sizes b"
| "upsampling_sizes (UpSampling2D sz x) = sz # upsampling_sizes x"
| "upsampling_sizes (LeakyReLU alpha x) = upsampling_sizes x"
| "upsampling_sizes (Dense units act x) = upsampling_sizes x"

text \<open>The number of additions passed when a tensor is followed back along the
  second argument of each \<^verbatim>\<open>Add\<close>, which is where the file puts the skipped input.\<close>

fun skip_depth :: "tensor \<Rightarrow> nat" where
  "skip_depth (Add a b) = Suc (skip_depth b)"
| "skip_depth x = 0"

subsection \<open>Values\<close>

text \<open>
  A tensor value is the flat list of its entries. The learned part of a layer
  (the affine map of a convolution or dense layer, the normalisation, the pixel
  repetition of \<^verbatim>\<open>UpSampling2D\<close>) is not in \<^verbatim>\<open>srgan.py\<close>: it is the parameter \<open>W\<close>,
  which gives each node of the graph a map on values. What the file fixes are the
  activations and the additions.
\<close>

definition sigmoid_fn :: "real \<Rightarrow> real" where
  "sigmoid_fn v = 1 / (1 + exp (- v))"

fun act_fn :: "activation \<Rightarrow> real \<Rightarrow> real" where
  "act_fn relu v = max 0 v"
| "act_fn tanh_act v = tanh v"
| "act_fn sigmoid v = sigmoid_fn v"

fun activate :: "activation option \<Rightarrow> real list \<Rightarrow> real list" where
  "activate None vs = vs"
| "activate (Some a) vs = map (act_fn a) vs"

definition leaky_relu :: "real \<Rightarrow> real \<Rightarrow> real" where
  "leaky_relu alpha v = (if 0 \<le> v then v else alpha * v)"

type_synonym weights = "tensor \<Rightarrow> real list \<Rightarrow> real list"

fun eval_tensor :: "weights \<Rightarrow> real list \<Rightarrow> tensor \<Rightarrow> real list" where
  "eval_tensor W inp (Input s) = inp"
| "eval_tensor W inp (Conv2D filters kernel_size strides act x) =
     activate act (W (Conv2D filters kernel_size strides act x) (eval_tensor W inp x))"
| "eval_tensor W inp (Activation a x) = map (act_fn a) (eval_tensor W inp x)"
| "eval_tensor W inp (BatchNormalization momentum x) =
     W (BatchNormalization momentum x) (eval_tensor W inp x)"
| "eval_tensor W inp (Add a b) = map2 (+) (eval_tensor W inp a) (eval_tensor W inp b)"
| "eval_tensor W inp (UpSampling2D sz x) = W (UpSampling2D sz x) (eval_tensor W inp x)"
| "eval_tensor W inp (LeakyReLU alpha x) = map (leaky_relu alpha) (eval_tensor W inp x)"
| "eval_tensor W inp (Dense units act x) =
     activate act (W (Dense units act x) (eval_tensor W inp x))"

section \<open>The SRGAN object\<close>

text \<open>The attributes \<^verbatim>\<open>SRGAN.__init__\<close> assigns before it builds the networks.
  They are non-negative Python integers; \<open>n - 1\<close> on \<open>nat\<close> stops at 0, and
  \<^verbatim>\<open>range\<close> of a negative number is empty as well. The patch size is
  \<^verbatim>\<open>int(self.hr_height / 2 ** 4)\<close>, a true division followed by truncation.\<close>

record srgan_attrs =
  channels :: nat
  lr_height :: nat
  lr_width :: nat
  lr_shape :: shape3
  hr_height :: nat
  hr_width :: nat
  hr_shape :: shape3
  n_residual_blocks :: nat
  disc_patch :: shape3
  gf :: nat
  df :: nat

definition init_attrs :: srgan_attrs where
  "init_attrs =
    (let channels = 3;
         lr_height = 64;
         lr_width = 64;
         lr_shape = (lr_height, lr_width, channels);
         hr_height = lr_height * 4;
         hr_width = lr_width * 4;
         hr_shape = (hr_height, hr_width, channels);
         n_residual_blocks = 16;
         patch = nat \<lfloor>real hr_height / 2 ^ 4\<rfloor>;
         disc_patch = (patch, patch, 1);
         gf = 64;
         df = 64
     in \<lparr>channels = channels, lr_height = lr_height, lr_width = lr_width,
         lr_shape = lr_shape, hr_height = hr_height, hr_width = hr_width,
         hr_shape = hr_shape, n_residual_blocks = n_residual_blocks,
         disc_patch = disc_patch, gf = gf, df = df\<rparr>)"

subsection \<open>build_generator\<close>

definition residual_block :: "tensor \<Rightarrow> nat \<Rightarrow> tensor" where
  "residual_block layer_input filters =
    (let d = Conv2D filters 3 1 None layer_input;
         d = Activation relu d;
         d = BatchNormalization (8 / 10) d;
         d = Conv2D filters 3 1 None d;
         d = BatchNormalization (8 / 10) d;
         d = Add d layer_input
     in d)"

definition deconv2d :: "tensor \<Rightarrow> tensor" where
  "deconv2d layer_input =
    (let u = UpSampling2D 2 layer_input;
         u = Conv2D 256 3 1 None u;
         u = Activation relu u
     in u)"

text \<open>The loop \<^verbatim>\<open>for _ in range(k): r = residual_block(r, filters)\<close>.\<close>

fun residual_loop :: "nat \<Rightarrow> tensor \<Rightarrow> nat \<Rightarrow> tensor" where
  "residual_loop 0 r filters = r"
| "residual_loop (Suc k) r filters = residual_loop k (residual_block r filters) filters"

definition build_generator :: "'a srgan_attrs_scheme \<Rightarrow> model" where
  "build_generator self =
    (let img_lr = Input (lr_shape self);
         c1 = Conv2D 64 9 1 None img_lr;
         c1 = Activation relu c1;
         r = residual_block c1 (gf self);
         r = residual_loop (n_residual_blocks self - 1) r (gf self);
         c2 = Conv2D 64 3 1 None r;
         c2 = BatchNormalization (8 / 10) c2;
         c2 = Add c2 c1;
         u1 = deconv2d c2;
         u2 = deconv2d u1;
         gen_hr = Conv2D (channels self) 9 1 (Some tanh_act) u2
     in Model img_lr gen_hr)"

subsection \<open>build_discriminator\<close>

definition d_block :: "tensor \<Rightarrow> nat \<Rightarrow> nat \<Rightarrow> bool \<Rightarrow> tensor" where
  "d_block layer_input filters strides bn =
    (let d = Conv2D filters 3 strides None layer_input;
         d = LeakyReLU (2 / 10) d;
         d = (if bn then BatchNormalization (8 / 10) d else d)
     in d)"

definition build_discriminator :: "'a srgan_attrs_scheme \<Rightarrow> model" where
  "build_discriminator self =
    (let d0 = Input (hr_shape self);
         d1 = d_block d0 (df self) 1 False;
         d2 = d_block d1 (df self) 2 True;
         d3 = d_block d2 (df self * 2) 1 True;
         d4 = d_block d3 (df self * 2) 2 True;
         d5 = d_block d4 (df self * 4) 1 True;
         d6 = d_block d5 (df self * 4) 2 True;
         d7 = d_block d6 (df self * 8) 1 True;
         d8 = d_block d7 (df self * 8) 2 True;
         d9 = Dense (df self * 16) None d8;
         d10 = LeakyReLU (2 / 10) d9;
         validity = Dense 1 (Some sigmoid) d10
     in Model d0 validity)"

section \<open>Models, compilation and the trainable flag\<close>

text \<open>
  \<^verbatim>\<open>__init__\<close> holds three networks and wires them into a fourth, the combined model,
  by calling them on symbolic tensors. Learned parameters are tracked per network.
  The VGG19 network comes from \<^verbatim>\<open>keras.applications\<close> with its pre-trained weights; its
  layers are not in the file, and it appears here by name only.

  From Keras, as the file relies on it: a model whose \<^verbatim>\<open>trainable\<close> attribute is
  false contributes no trainable weights, neither alone nor as a layer of another
  model; \<^verbatim>\<open>compile\<close> records the trainable weights the model has at that moment;
  \<^verbatim>\<open>train_on_batch\<close> updates the recorded weights and nothing else, and fails on a
  model that was never compiled.
\<close>

datatype model_ref = Vgg | Generator | Discriminator | Combined

datatype ctensor = CInput shape3 | Apply model_ref ctensor

datatype cmodel = CModel (cinputs: "ctensor list") (coutputs: "ctensor list")

fun applied_models :: "ctensor \<Rightarrow> model_ref list" where
  "applied_models (CInput s) = []"
| "applied_models (Apply m x) = applied_models x @ [m]"

definition model_layers :: "cmodel \<Rightarrow> model_ref list" where
  "model_layers m = remdups (concat (map applied_models (coutputs m)))"

datatype loss = mse | binary_crossentropy

datatype optimizer = Adam real real

record compile_config =
  loss :: "loss list"
  loss_weights :: "real list option"
  optimizer :: optimizer
  metrics :: "string list"
  collected_trainable_weights :: "model_ref list"

record keras_state =
  trainable :: "model_ref \<Rightarrow> bool"
  compiled :: "model_ref \<Rightarrow> compile_config option"

definition set_trainable :: "model_ref \<Rightarrow> bool \<Rightarrow> keras_state \<Rightarrow> keras_state" where
  "set_trainable m b ks = ks\<lparr>trainable := (trainable ks)(m := b)\<rparr>"

text \<open>\<open>layers\<close> are the networks a model calls; a network built from plain layers
  has none and owns its weights.\<close>

definition trainable_weights :: "keras_state \<Rightarrow> model_ref list \<Rightarrow> model_ref \<Rightarrow> model_ref list" where
  "trainable_weights ks layers m =
     (if \<not> trainable ks m then []
      else if layers = [] then [m]
      else filter (trainable ks) layers)"

definition compile_model ::
  "model_ref \<Rightarrow> model_ref list \<Rightarrow> loss list \<Rightarrow> real list option \<Rightarrow> optimizer \<Rightarrow> string list
     \<Rightarrow> keras_state \<Rightarrow> keras_state" where
  "compile_model m layers l lw opt mets ks =
     ks\<lparr>compiled := (compiled ks)(m \<mapsto>
         \<lparr>loss = l, loss_weights = lw, optimizer = opt, metrics = mets,
          collected_trainable_weights = trainable_weights ks layers m\<rparr>)\<rparr>"

text \<open>The objective Keras minimises for a compiled model with several outputs:
  the sum of the per-output losses, each times its weight (1 when no weights are
  given). The loss functions themselves are the parameter \<open>L\<close>.\<close>

definition total_loss ::
  "compile_config \<Rightarrow> (loss \<Rightarrow> 'y \<Rightarrow> 'y \<Rightarrow> real) \<Rightarrow> 'y list \<Rightarrow> 'y list \<Rightarrow> real" where
  "total_loss cfg L y_true y_pred =
     (let ws = (case loss_weights cfg of
                  None \<Rightarrow> replicate (length (loss cfg)) 1
                | Some ws \<Rightarrow> ws)
      in sum_list (map (\<lambda>(w, l, t, p). w * L l t p)
                       (zip ws (zip (loss cfg) (zip y_true y_pred)))))"

record srgan = srgan_attrs +
  discriminator :: model
  generator :: model
  combined :: cmodel
  keras :: keras_state

definition init :: srgan where
  "init =
    (let a = init_attrs;
         optimizer = Adam (2 / 10000) (5 / 10);
         ks = \<lparr>trainable = (\<lambda>m. True), compiled = (\<lambda>m. None)\<rparr>;
         ks = set_trainable Vgg False ks;
         ks = compile_model Vgg [] [mse] None optimizer [''accuracy''] ks;
         discriminator = build_discriminator a;
         ks = compile_model Discriminator [] [mse] None optimizer [''accuracy''] ks;
         generator = build_generator a;
         img_hr = CInput (hr_shape a);
         img_lr = CInput (lr_shape a);
         fake_hr = Apply Generator img_lr;
         fake_features = Apply Vgg fake_hr;
         ks = set_trainable Discriminator False ks;
         validity = Apply Discriminator fake_hr;
         combined = CModel [img_lr, img_hr] [validity, fake_features];
         ks = compile_model Combined (model_layers combined)
                [binary_crossentropy, mse] (Some [1 / 1000, 1]) optimizer [] ks
     in srgan_attrs.extend a
          (srgan.fields discriminator generator combined ks))"

section \<open>Arrays\<close>

text \<open>
  An array is its shape and its entries in row-major order. A batch is the list of
  its samples, which is how the file uses the first axis (\<^verbatim>\<open>imgs_hr.shape[0]\<close>,
  \<^verbatim>\<open>zip(imgs_hr, fake_hr)\<close>). Floating-point numbers are modelled as reals.
\<close>

datatype 'a ndarray = NdArray (shape: "nat list") (data: "'a list")

type_synonym batch = "real ndarray list"

definition elementwise :: "('a \<Rightarrow> 'b) \<Rightarrow> 'a ndarray \<Rightarrow> 'b ndarray" where
  "elementwise f x = NdArray (shape x) (map f (data x))"

definition tuple_list :: "shape3 \<Rightarrow> nat list" where
  "tuple_list s = (case s of (h, w, c) \<Rightarrow> [h, w, c])"

text \<open>\<^verbatim>\<open>np.ones(shp)\<close> and \<^verbatim>\<open>np.zeros(shp)\<close> for a shape that starts with the batch axis.\<close>

definition np_full :: "nat list \<Rightarrow> real \<Rightarrow> batch" where
  "np_full shp v =
     (case shp of
        [] \<Rightarrow> []
      | n # sample \<Rightarrow> replicate n (NdArray sample (replicate (prod_list sample) v)))"

definition np_ones :: "nat list \<Rightarrow> batch" where
  "np_ones shp = np_full shp 1"

definition np_zeros :: "nat list \<Rightarrow> batch" where
  "np_zeros shp = np_full shp 0"

text \<open>\<^verbatim>\<open>np.add\<close> on two loss lists of the same length, and \<^verbatim>\<open>np.mean\<close>, which is
  \<^verbatim>\<open>nan\<close> (here \<open>None\<close>) on an empty list.\<close>

definition np_add :: "real list \<Rightarrow> real list \<Rightarrow> real list" where
  "np_add xs ys = map2 (+) xs ys"

definition np_mean :: "real list \<Rightarrow> real option" where
  "np_mean xs = (if xs = [] then None else Some (sum_list xs / real (length xs)))"

text \<open>\<^verbatim>\<open>.astype(np.uint8)\<close> drops the fraction. Outside 0..255 the result of the
  cast depends on the platform; the model wraps modulo 256 there.\<close>

definition astype_uint8 :: "real \<Rightarrow> 8 word" where
  "astype_uint8 v = word_of_int (if 0 \<le> v then \<lfloor>v\<rfloor> else \<lceil>v\<rceil>)"

text \<open>\<^verbatim>\<open>0.5 * imgs + 0.5\<close> on a batch, and \<^verbatim>\<open>((img + 1) * 127.5).astype(np.uint8)\<close> on
  one image.\<close>

definition rescale :: "batch \<Rightarrow> batch" where
  "rescale imgs = map (elementwise (\<lambda>v. 0.5 * v + 0.5)) imgs"

definition to_uint8 :: "real ndarray \<Rightarrow> 8 word ndarray" where
  "to_uint8 img = elementwise astype_uint8 (elementwise (\<lambda>v. (v + 1) * 127.5) img)"

text \<open>\<^verbatim>\<open>str\<close> and \<^verbatim>\<open>%d\<close> of an integer.\<close>

fun str_nat :: "nat \<Rightarrow> string" where
  "str_nat n =
     (if n < 10 then [''0123456789'' ! n]
      else str_nat (n div 10) @ [''0123456789'' ! (n mod 10)])"

definition str :: "int \<Rightarrow> string" where
  "str i = (if i < 0 then ''-'' @ str_nat (nat (- i)) else str_nat (nat i))"


section \<open>Collaborators and effects\<close>

text \<open>
  What \<^verbatim>\<open>srgan.py\<close> calls and does not define is a parameter: the data loader (its
  result may differ from call to call, so it is indexed by the number of earlier
  calls), the forward pass of the pre-trained VGG19, the optimiser step behind
  \<^verbatim>\<open>train_on_batch\<close> (it returns the weights it would assign to every network, and
  the losses), the weight file reader, and the two image metrics. These calls, and
  the writes to the file system, are taken to return. Every call with an effect
  outside the program, every call of a metric and every line printed is logged, in
  order. The wall-clock time that \<^verbatim>\<open>train\<close> prints is left out.
\<close>

record world =
  load_data :: "nat \<Rightarrow> nat \<Rightarrow> bool option \<Rightarrow> bool option \<Rightarrow> batch \<times> batch"
  vgg_forward :: "weights \<Rightarrow> batch \<Rightarrow> batch"
  fit :: "model_ref \<Rightarrow> (model_ref \<Rightarrow> weights) \<Rightarrow> batch list \<Rightarrow> batch list
            \<Rightarrow> (model_ref \<Rightarrow> weights) \<times> real list"
  read_weights :: "string \<Rightarrow> weights"
  psnr :: "8 word ndarray \<Rightarrow> 8 word ndarray \<Rightarrow> real"
  ssim :: "8 word ndarray \<Rightarrow> 8 word ndarray \<Rightarrow> bool \<Rightarrow> real"

text \<open>\<open>PrintList\<close> is \<^verbatim>\<open>print\<close> of a list of values, \<open>PrintRounded label v d\<close> is
  \<^verbatim>\<open>print(f'label{v:.df}')\<close>, which shows \<open>v\<close> rounded to \<open>d\<close> decimals, and \<open>PrintEnd\<close>
  is the closing line of \<^verbatim>\<open>test_images\<close>.\<close>

datatype event =
    LoadData nat "bool option" "bool option"
  | Predict model_ref batch
  | TrainOnBatch model_ref "batch list" "batch list"
  | Print int
  | MakeDirs string
  | SaveFig string "batch list"
  | ImSave string "real ndarray"
  | LoadWeights string
  | SaveWeights string
  | PsnrCall "8 word ndarray" "8 word ndarray"
  | SsimCall "8 word ndarray" "8 word ndarray" bool
  | PrintList "real list"
  | PrintRounded string "real option" nat
  | PrintEnd

datatype error = ZeroDivisionError | RuntimeError | IndexError | ValueError

record io_state =
  net_weights :: "model_ref \<Rightarrow> weights"
  loads :: nat
  log :: "event list"

text \<open>The local variables of \<^verbatim>\<open>train\<close> and of \<^verbatim>\<open>test_images\<close> that outlive one
  statement.\<close>

record train_state = io_state +
  sample_interval :: int
  d_loss :: "real list"
  g_loss :: "real list"

record test_state = io_state +
  psnr_values :: "real list"
  ssim_values :: "real list"
  avg_psnr :: "real option"
  avg_ssim :: "real option"

definition emit :: "event \<Rightarrow> 'a io_state_scheme \<Rightarrow> 'a io_state_scheme" where
  "emit e s = s\<lparr>log := log s @ [e]\<rparr>"

definition data_loader_load_data ::
  "world \<Rightarrow> nat \<Rightarrow> bool option \<Rightarrow> bool option \<Rightarrow> 'a io_state_scheme
     \<Rightarrow> (batch \<times> batch) \<times> 'a io_state_scheme" where
  "data_loader_load_data world batch_size is_testing is_pred s =
     (load_data world (loads s) batch_size is_testing is_pred,
      (emit (LoadData batch_size is_testing is_pred) s)\<lparr>loads := Suc (loads s)\<rparr>)"

text \<open>\<^verbatim>\<open>predict\<close> runs a network on each sample with its current weights.\<close>

definition forward :: "model \<Rightarrow> weights \<Rightarrow> real ndarray \<Rightarrow> real ndarray" where
  "forward m W x =
     NdArray (case output_shape (outputs m) of None \<Rightarrow> [] | Some s \<Rightarrow> tuple_list s)
             (eval_tensor W (data x) (outputs m))"

definition generator_predict ::
  "'b srgan_scheme \<Rightarrow> batch \<Rightarrow> 'a io_state_scheme \<Rightarrow> batch \<times> 'a io_state_scheme" where
  "generator_predict self x s =
     (map (forward (generator self) (net_weights s Generator)) x,
      emit (Predict Generator x) s)"

definition vgg_predict ::
  "world \<Rightarrow> batch \<Rightarrow> 'a io_state_scheme \<Rightarrow> batch \<times> 'a io_state_scheme" where
  "vgg_predict world x s =
     (vgg_forward world (net_weights s Vgg) x, emit (Predict Vgg x) s)"

definition train_on_batch ::
  "world \<Rightarrow> 'b srgan_scheme \<Rightarrow> model_ref \<Rightarrow> batch list \<Rightarrow> batch list \<Rightarrow> 'a io_state_scheme
     \<Rightarrow> (error \<times> 'a io_state_scheme) + (real list \<times> 'a io_state_scheme)" where
  "train_on_batch world self m x y s =
     (case compiled (keras self) m of
        None \<Rightarrow> Inl (RuntimeError, s)
      | Some cfg \<Rightarrow>
          (let (proposed, losses) = fit world m (net_weights s) x y;
               w = (\<lambda>c. if c \<in> set (collected_trainable_weights cfg)
                         then proposed c else net_weights s c)
           in Inr (losses, (emit (TrainOnBatch m x y) s)\<lparr>net_weights := w\<rparr>)))"

text \<open>
  Both plotting functions call \<^verbatim>\<open>plt.subplots(r, c)\<close> with \<open>r\<close> the number of images
  in \<^verbatim>\<open>imgs_hr\<close> and \<open>c\<close> equal to 2 or 3, and then draw \<^verbatim>\<open>image[row]\<close> on
  \<^verbatim>\<open>axs[row, col]\<close> for every row below \<open>r\<close> and each of the \<open>c\<close> batches. With no row
  \<^verbatim>\<open>subplots\<close> refuses the grid (\<^verbatim>\<open>ValueError\<close>). With one row the array of axes it
  returns has one dimension only, and the first \<^verbatim>\<open>axs[row, col]\<close> raises
  \<^verbatim>\<open>IndexError\<close>. With two rows or more the array has two dimensions, and
  \<^verbatim>\<open>image[row]\<close> raises \<^verbatim>\<open>IndexError\<close> on a batch with fewer than \<open>r\<close> images.
  \<open>None\<close> is a plot that was drawn.
\<close>

definition plot_rows :: "nat \<Rightarrow> batch list \<Rightarrow> error option" where
  "plot_rows r images =
     (if r = 0 then Some ValueError
      else if r = 1 then Some IndexError
      else if list_ex (\<lambda>image. length image < r) images then Some IndexError
      else None)"

section \<open>sample_images_new\<close>

definition sample_images_new ::
  "world \<Rightarrow> 'b srgan_scheme \<Rightarrow> int \<Rightarrow> 'a io_state_scheme
     \<Rightarrow> (error \<times> 'a io_state_scheme) + 'a io_state_scheme" where
  "sample_images_new world self epoch s =
    (let s = emit (MakeDirs ''images/'') s;
         ((imgs_hr, imgs_lr), s) = data_loader_load_data world 1 (Some True) (Some True) s;
         (fake_hr, s) = generator_predict self imgs_lr s;
         imgs_lr = rescale imgs_lr;
         fake_hr = rescale fake_hr;
         imgs_hr = rescale imgs_hr;
         r = length imgs_hr
     in case plot_rows r [fake_hr, imgs_hr, imgs_lr] of
          Some e \<Rightarrow> Inl (e, s)
        | None \<Rightarrow>
            Inr (emit (SaveFig (''images/'' @ str epoch @ ''.png'') [fake_hr, imgs_hr, imgs_lr]) s))"

section \<open>train\<close>

definition train_discriminator ::
  "world \<Rightarrow> 'b srgan_scheme \<Rightarrow> nat \<Rightarrow> train_state \<Rightarrow> (error \<times> train_state) + train_state" where
  "train_discriminator world self batch_size s =
    (let ((imgs_hr, imgs_lr), s) = data_loader_load_data world batch_size None None s;
         (fake_hr, s) = generator_predict self imgs_lr s;
         valid = np_ones (batch_size # tuple_list (disc_patch self));
         fake = np_zeros (batch_size # tuple_list (disc_patch self))
     in case train_on_batch world self Discriminator [imgs_hr] [valid] s of
          Inl e \<Rightarrow> Inl e
        | Inr (d_loss_real, s) \<Rightarrow>
            (case train_on_batch world self Discriminator [fake_hr] [fake] s of
               Inl e \<Rightarrow> Inl e
             | Inr (d_loss_fake, s) \<Rightarrow>
                 Inr (s\<lparr>d_loss := map ((*) 0.5) (np_add d_loss_real d_loss_fake)\<rparr>)))"

definition train_generator ::
  "world \<Rightarrow> 'b srgan_scheme \<Rightarrow> nat \<Rightarrow> train_state \<Rightarrow> (error \<times> train_state) + train_state" where
  "train_generator world self batch_size s =
    (let ((imgs_hr, imgs_lr), s) = data_loader_load_data world batch_size None None s;
         valid = np_ones (batch_size # tuple_list (disc_patch self));
         (image_features, s) = vgg_predict world imgs_hr s
     in case train_on_batch world self Combined [imgs_lr, imgs_hr] [valid, image_features] s of
          Inl e \<Rightarrow> Inl e
        | Inr (l, s) \<Rightarrow> Inr (s\<lparr>g_loss := l\<rparr>))"

text \<open>The end of the loop body. \<^verbatim>\<open>epoch % sample_interval\<close> raises on a zero
  interval; on integers Python's \<^verbatim>\<open>%\<close> is \<open>mod\<close>.\<close>

definition end_of_epoch ::
  "world \<Rightarrow> 'b srgan_scheme \<Rightarrow> int \<Rightarrow> train_state \<Rightarrow> (error \<times> train_state) + train_state" where
  "end_of_epoch world self epoch s =
    (let s = emit (Print epoch) s
     in if sample_interval s = 0 then Inl (ZeroDivisionError, s)
        else
          (case (if epoch mod sample_interval s = 0
                 then sample_images_new world self epoch s else Inr s) of
             Inl e \<Rightarrow> Inl e
           | Inr s \<Rightarrow>
               Inr (if epoch mod 500 = 0 \<and> epoch > 1
                    then emit (SaveWeights (''./saved_model/'' @ str epoch @ ''.h5'')) s
                    else s)))"

definition train_epoch ::
  "world \<Rightarrow> 'b srgan_scheme \<Rightarrow> nat \<Rightarrow> int \<Rightarrow> train_state \<Rightarrow> (error \<times> train_state) + train_state" where
  "train_epoch world self batch_size epoch s =
    (let s = (if epoch > 30 then s\<lparr>sample_interval := 10\<rparr> else s);
         s = (if epoch > 100 then s\<lparr>sample_interval := 50\<rparr> else s)
     in case train_discriminator world self batch_size s of
          Inl e \<Rightarrow> Inl e
        | Inr s \<Rightarrow>
            (case train_generator world self batch_size s of
               Inl e \<Rightarrow> Inl e
             | Inr s \<Rightarrow> end_of_epoch world self epoch s))"

fun train_loop ::
  "world \<Rightarrow> 'b srgan_scheme \<Rightarrow> nat \<Rightarrow> int list \<Rightarrow> train_state \<Rightarrow> (error \<times> train_state) + train_state" where
  "train_loop world self batch_size [] s = Inr s"
| "train_loop world self batch_size (epoch # rest) s =
     (case train_epoch world self batch_size epoch s of
        Inl e \<Rightarrow> Inl e
      | Inr s' \<Rightarrow> train_loop world self batch_size rest s')"

text \<open>\<^verbatim>\<open>train(epochs, batch_size, sample_interval)\<close>, started in the state \<open>s\<close> of the
  outside world; \<^verbatim>\<open>range(epochs)\<close> is empty for a negative number.\<close>

definition train ::
  "world \<Rightarrow> 'b srgan_scheme \<Rightarrow> int \<Rightarrow> nat \<Rightarrow> int \<Rightarrow> io_state \<Rightarrow> (error \<times> train_state) + train_state" where
  "train world self epochs batch_size interval s =
     train_loop world self batch_size (map int [0..<nat epochs])
       (io_state.extend s (train_state.fields interval [] []))"

text \<open>The state a run ends in, whether it returned or raised, and the exception
  it raised.\<close>

definition final_state :: "(error \<times> 's) + 's \<Rightarrow> 's" where
  "final_state r = (case r of Inl (e, s) \<Rightarrow> s | Inr s \<Rightarrow> s)"

definition raised :: "(error \<times> 's) + 's \<Rightarrow> error option" where
  "raised r = (case r of Inl (e, s) \<Rightarrow> Some e | Inr s \<Rightarrow> None)"

section \<open>test_images\<close>

text \<open>The loop over \<^verbatim>\<open>zip(imgs_hr, fake_hr)\<close>.\<close>

fun metric_loop :: "world \<Rightarrow> (real ndarray \<times> real ndarray) list \<Rightarrow> test_state \<Rightarrow> test_state" where
  "metric_loop world [] s = s"
| "metric_loop world ((img_real, img_generated) # rest) s =
     (let img_real = to_uint8 img_real;
          img_generated = to_uint8 img_generated;
          psnr_value = psnr world img_real img_generated;
          s = emit (PsnrCall img_real img_generated) s;
          s = s\<lparr>psnr_values := psnr_values s @ [psnr_value]\<rparr>;
          ssim_value = ssim world img_real img_generated True;
          s = emit (SsimCall img_real img_generated True) s;
          s = s\<lparr>ssim_values := ssim_values s @ [ssim_value]\<rparr>
      in metric_loop world rest s)"

definition imsave_events :: "batch \<Rightarrow> batch \<Rightarrow> event list" where
  "imsave_events imgs_lr fake_hr =
     concat (map (\<lambda>(i, (lr_img, hr_img)).
                    [ImSave (''./res/bicubic_downsampling_'' @ str (int i + 1) @ ''.png'') lr_img,
                     ImSave (''./res/gen_high_resolution_'' @ str (int i + 1) @ ''.png'') hr_img])
                 (enumerate 0 (zip imgs_lr fake_hr)))"

text \<open>\<^verbatim>\<open>test_images(batch_size)\<close>, started in the state \<open>s\<close> of the outside world. The
  function returns nothing; what it computes is in its local variables and in
  what it prints.\<close>

definition test_images ::
  "world \<Rightarrow> 'b srgan_scheme \<Rightarrow> nat \<Rightarrow> io_state \<Rightarrow> (error \<times> test_state) + test_state" where
  "test_images world self batch_size s =
    (let s = io_state.extend s (test_state.fields [] [] None None);
         ((imgs_hr, imgs_lr), s) = data_loader_load_data world batch_size None (Some True) s;
         s = emit (MakeDirs ''saved_model/'') s;
         path = ''./saved_model/'' @ str 2000 @ ''.h5'';
         s = (emit (LoadWeights path) s)
               \<lparr>net_weights := (net_weights s)(Generator := read_weights world path)\<rparr>;
         (fake_hr, s) = generator_predict self imgs_lr s;
         r = length imgs_hr;
         imgs_lr = rescale imgs_lr;
         fake_hr = rescale fake_hr;
         imgs_hr = rescale imgs_hr
     in case plot_rows r [imgs_lr, fake_hr] of
          Some e \<Rightarrow> Inl (e, s)
        | None \<Rightarrow>
            (let s = emit (SaveFig ''./result.png'' [imgs_lr, fake_hr]) s;
                 s = s\<lparr>log := log s @ imsave_events imgs_lr fake_hr\<rparr>;
                 s = metric_loop world (zip imgs_hr fake_hr) s;
                 s = emit (PrintList (psnr_values s)) s;
                 s = emit (PrintList (ssim_values s)) s;
                 s = s\<lparr>avg_psnr := np_mean (psnr_values s)\<rparr>;
                 s = s\<lparr>avg_ssim := np_mean (ssim_values s)\<rparr>;
                 s = emit (PrintRounded ''Average PSNR: '' (avg_psnr s) 2) s;
                 s = emit (PrintRounded ''Average SSIM: '' (avg_ssim s) 4) s;
                 s = emit PrintEnd s
             in Inr s))"

section \<open>Reading the log\<close>

text \<open>The paths of the figures and of the weight files a log records, the pairs
  of images handed to PSNR, all in order, and whether an event is a training
  step.\<close>

definition saved_figures :: "event list \<Rightarrow> string list" where
  "saved_figures es = concat (map (\<lambda>e. case e of SaveFig p imgs \<Rightarrow> [p] | _ \<Rightarrow> []) es)"

definition saved_weights :: "event list \<Rightarrow> string list" where
  "saved_weights es = concat (map (\<lambda>e. case e of SaveWeights p \<Rightarrow> [p] | _ \<Rightarrow> []) es)"

definition psnr_calls :: "event list \<Rightarrow> (8 word ndarray \<times> 8 word ndarray) list" where
  "psnr_calls es = concat (map (\<lambda>e. case e of PsnrCall a b \<Rightarrow> [(a, b)] | _ \<Rightarrow> []) es)"

definition ssim_calls :: "event list \<Rightarrow> (8 word ndarray \<times> 8 word ndarray) list" where
  "ssim_calls es = concat (map (\<lambda>e. case e of SsimCall a b m \<Rightarrow> [(a, b)] | _ \<Rightarrow> []) es)"

definition is_train_on_batch :: "event \<Rightarrow> bool" where
  "is_train_on_batch e = (case e of TrainOnBatch m x y \<Rightarrow> True | _ \<Rightarrow> False)"

text \<open>The sampling interval as the specification words it: the argument up to
  epoch 30, 10 from epoch 31 to epoch 100, 50 after that.\<close>

definition spec_interval :: "int \<Rightarrow> int \<Rightarrow> int" where
  "spec_interval interval e = (if e \<le> 30 then interval else if e \<le> 100 then 10 else 50)"

text \<open>A batch pair that both plotting functions can draw: two images or more, and
  no fewer low-resolution than high-resolution ones.\<close>

definition drawable :: "batch \<times> batch \<Rightarrow> bool" where
  "drawable b = (case b of (imgs_hr, imgs_lr) \<Rightarrow> 2 \<le> length imgs_hr \<and> length imgs_hr \<le> length imgs_lr)"

text \<open>
  Two worlds to run the program in. In both the images are black, of the sizes the
  networks were built for, the VGG features have the size of the third VGG19 block
  on such an image, the optimiser leaves the weights alone and reports a loss and
  an accuracy, and the weight file holds the identity. In \<open>plain_world\<close> the loader
  returns as many images as it is asked for. In \<open>gallery_world\<close> it returns at least
  two when it is called with \<^verbatim>\<open>is_pred=True\<close>.
\<close>

definition black :: "nat list \<Rightarrow> real ndarray" where
  "black shp = NdArray shp (replicate (prod_list shp) 0)"

definition plain_world :: world where
  "plain_world =
     \<lparr>load_data = (\<lambda>k n is_testing is_pred.
                     (replicate n (black [256, 256, 3]), replicate n (black [64, 64, 3]))),
      vgg_forward = (\<lambda>W x. map (\<lambda>img. black [64, 64, 256]) x),
      fit = (\<lambda>m w x y. (w, [0, 0])),
      read_weights = (\<lambda>path t v. v),
      psnr = (\<lambda>a b. 30),
      ssim = (\<lambda>a b multichannel. 1)\<rparr>"

definition gallery_world :: world where
  "gallery_world =
     plain_world
       \<lparr>load_data := (\<lambda>k n is_testing is_pred.
                        (let m = (if is_pred = Some True then max 2 n else n)
                         in (replicate m (black [256, 256, 3]), replicate m (black [64, 64, 3]))))\<rparr>"

definition fresh_state :: io_state where
  "fresh_state = \<lparr>net_weights = (\<lambda>m t v. v), loads = 0, log = []\<rparr>"

section \<open>Facts about the constructed object\<close>

lemma init_attrs_simps:
  "channels init_attrs = 3" "lr_height init_attrs = 64" "lr_width init_attrs = 64"
  "lr_shape init_attrs = (64, 64, 3)" "hr_height init_attrs = 256" "hr_width init_attrs = 256"
  "hr_shape init_attrs = (256, 256, 3)" "n_residual_blocks init_attrs = 16"
  "disc_patch init_attrs = (16, 16, 1)" "gf init_attrs = 64" "df init_attrs = 64"
  by (simp_all add: init_attrs_def Let_def)

lemma init_more:
  "channels init = channels init_attrs" "lr_height init = lr_height init_attrs"
  "lr_width init = lr_width init_attrs" "lr_shape init = lr_shape init_attrs"
  "hr_height init = hr_height init_attrs" "hr_width init = hr_width init_attrs"
  "hr_shape init = hr_shape init_attrs" "n_residual_blocks init = n_residual_blocks init_attrs"
  "disc_patch init = disc_patch init_attrs" "gf init = gf init_attrs" "df init = df init_attrs"
  "generator init = build_generator init_attrs"
  "discriminator init = build_discriminator init_attrs"
  by (simp_all add: init_def Let_def srgan_attrs.defs srgan.defs)

lemmas init_simps = init_more [unfolded init_attrs_simps]

section \<open>The generator graph\<close>

lemma elemwise_dim_same: "elemwise_dim i i = Some i"
  by (simp add: elemwise_dim_def)

lemma elemwise_shape_same: "elemwise_shape s s = Some s"
  by (cases s) (simp add: elemwise_shape_def elemwise_dim_same)

lemma conv_output_length_1: "conv_output_length n (Suc 0) = n"
  by (simp add: conv_output_length_def)

lemma output_shape_residual_block:
  assumes "output_shape x = Some (h, w, filters)"
  shows "output_shape (residual_block x filters) = Some (h, w, filters)"
  using assms
  by (simp add: residual_block_def conv_output_length_1 elemwise_shape_same)

lemma output_shape_residual_loop:
  assumes "output_shape r = Some (h, w, filters)"
  shows "output_shape (residual_loop k r filters) = Some (h, w, filters)"
  using assms
proof (induction k arbitrary: r)
  case 0
  then show ?case by simp
next
  case (Suc k)
  from Suc.prems have "output_shape (residual_block r filters) = Some (h, w, filters)"
    by (rule output_shape_residual_block)
  then show ?case by (simp add: Suc.IH)
qed

lemma output_shape_deconv2d:
  assumes "output_shape x = Some (h, w, c)"
  shows "output_shape (deconv2d x) = Some (h * 2, w * 2, 256)"
  using assms by (simp add: deconv2d_def conv_output_length_1)

text \<open>The graph \<^verbatim>\<open>build_generator\<close> returns, with the local variables substituted.\<close>

lemma build_generator_outputs:
  "outputs (build_generator self) =
     Conv2D (channels self) 9 1 (Some tanh_act)
       (deconv2d (deconv2d
          (Add (BatchNormalization (8 / 10)
                  (Conv2D 64 3 1 None
                     (residual_loop (n_residual_blocks self - 1)
                        (residual_block (Activation relu (Conv2D 64 9 1 None (Input (lr_shape self))))
                           (gf self))
                        (gf self))))
               (Activation relu (Conv2D 64 9 1 None (Input (lr_shape self)))))))"
  by (simp add: build_generator_def Let_def)

lemma build_generator_inputs: "inputs (build_generator self) = Input (lr_shape self)"
  by (simp add: build_generator_def Let_def)

lemma build_generator_init: "generator init = build_generator init"
  by (simp add: init_simps init_attrs_simps build_generator_def)

lemma output_shape_build_generator:
  assumes "lr_shape self = (h, w, c)" and "gf self = 64"
  shows "output_shape (outputs (build_generator self)) = Some (h * 4, w * 4, channels self)"
proof -
  let ?c1 = "Activation relu (Conv2D 64 9 1 None (Input (lr_shape self)))"
  let ?r = "residual_loop (n_residual_blocks self - 1) (residual_block ?c1 64) 64"
  let ?c2 = "Add (BatchNormalization (8 / 10) (Conv2D 64 3 1 None ?r)) ?c1"
  have c1: "output_shape ?c1 = Some (h, w, 64)"
    using assms(1) by (simp add: conv_output_length_1)
  then have "output_shape (residual_block ?c1 64) = Some (h, w, 64)"
    by (rule output_shape_residual_block)
  then have "output_shape ?r = Some (h, w, 64)"
    by (rule output_shape_residual_loop)
  then have "output_shape ?c2 = Some (h, w, 64)"
    using c1 by (simp add: conv_output_length_1 elemwise_shape_same)
  then have "output_shape (deconv2d ?c2) = Some (h * 2, w * 2, 256)"
    by (rule output_shape_deconv2d)
  then have "output_shape (deconv2d (deconv2d ?c2)) = Some (h * 2 * 2, w * 2 * 2, 256)"
    by (rule output_shape_deconv2d)
  then show ?thesis
    unfolding build_generator_outputs assms(2)
    by (simp add: conv_output_length_1)
qed

lemma upsampling_sizes_residual_block:
  "upsampling_sizes (residual_block x f) = upsampling_sizes x @ upsampling_sizes x"
  by (simp add: residual_block_def)

lemma upsampling_sizes_residual_loop:
  "upsampling_sizes r = [] \<Longrightarrow> upsampling_sizes (residual_loop k r f) = []"
  by (induction k arbitrary: r) (simp_all add: upsampling_sizes_residual_block)

lemma upsampling_sizes_deconv2d: "upsampling_sizes (deconv2d x) = 2 # upsampling_sizes x"
  by (simp add: deconv2d_def)

lemma upsampling_sizes_build_generator:
  "upsampling_sizes (outputs (build_generator self)) = [2, 2]"
  unfolding build_generator_outputs
  by (simp add: upsampling_sizes_deconv2d upsampling_sizes_residual_loop
      upsampling_sizes_residual_block)

lemma conv_strides_residual_block:
  "set (conv_strides (residual_block x f)) = insert 1 (set (conv_strides x))"
  by (auto simp add: residual_block_def)

lemma conv_strides_residual_loop:
  "set (conv_strides r) = {1} \<Longrightarrow> set (conv_strides (residual_loop k r f)) = {1}"
  by (induction k arbitrary: r) (simp_all add: conv_strides_residual_block)

lemma conv_strides_deconv2d: "set (conv_strides (deconv2d x)) = insert 1 (set (conv_strides x))"
  by (auto simp add: deconv2d_def)

lemma conv_strides_build_generator:
  "set (conv_strides (outputs (build_generator self))) = {1}"
  unfolding build_generator_outputs
  by (simp add: conv_strides_deconv2d conv_strides_residual_loop conv_strides_residual_block)

text \<open>
  Claim C1. The high-resolution shape is four times the low-resolution shape in
  both spatial dimensions, \<open>(256, 256, 3)\<close> against \<open>(64, 64, 3)\<close>. The generator built
  by \<^verbatim>\<open>build_generator\<close> takes an input of the low-resolution shape to an output of the
  high-resolution shape; its graph has exactly two upsampling layers, both of factor
  2, and every convolution in it has stride 1 (and same padding, the only padding
  the file uses).
\<close>

theorem C1_generator_upscales_4x:
  "lr_shape init = (64, 64, 3) \<and> hr_shape init = (256, 256, 3)
   \<and> hr_height init = 4 * lr_height init \<and> hr_width init = 4 * lr_width init
   \<and> generator init = build_generator init
   \<and> inputs (build_generator init) = Input (lr_shape init)
   \<and> output_shape (outputs (build_generator init)) = Some (hr_shape init)
   \<and> upsampling_sizes (outputs (build_generator init)) = [2, 2]
   \<and> set (conv_strides (outputs (build_generator init))) = {1}"
proof -
  have "output_shape (outputs (build_generator init)) = Some (hr_shape init)"
    using output_shape_build_generator [of init 64 64 3] by (simp add: init_simps)
  moreover have "lr_shape init = (64, 64, 3)" "hr_shape init = (256, 256, 3)"
    "hr_height init = 4 * lr_height init" "hr_width init = 4 * lr_width init"
    by (simp_all add: init_simps)
  ultimately show ?thesis
    using build_generator_init build_generator_inputs [of init]
      upsampling_sizes_build_generator [of init] conv_strides_build_generator [of init]
    by blast
qed

lemma residual_block_unfold:
  "residual_block x f =
     Add (BatchNormalization (8 / 10)
            (Conv2D f 3 1 None
               (BatchNormalization (8 / 10) (Activation relu (Conv2D f 3 1 None x)))))
         x"
  by (simp add: residual_block_def)

lemma residual_loop_funpow:
  "residual_loop k r f = ((\<lambda>r. residual_block r f) ^^ k) r"
  by (induction k arbitrary: r)
    (simp_all add: funpow_swap1 [of "\<lambda>r. residual_block r f", symmetric])

lemma skip_depth_residual_block: "skip_depth (residual_block x f) = Suc (skip_depth x)"
  by (simp add: residual_block_def)

lemma skip_depth_funpow:
  "skip_depth (((\<lambda>r. residual_block r f) ^^ k) x) = k + skip_depth x"
  by (induction k) (simp_all add: skip_depth_residual_block)

lemma residual_stack_funpow:
  "residual_loop (n - 1) (residual_block c1 f) f = ((\<lambda>r. residual_block r f) ^^ Suc (n - 1)) c1"
  by (simp add: residual_loop_funpow funpow_swap1 [of "\<lambda>r. residual_block r f", symmetric])

text \<open>
  Claim C6. The generator holds exactly 16 residual blocks: the tensor \<open>r\<close> that
  enters the post-residual convolution is \<^verbatim>\<open>residual_block\<close> applied 16 times to \<open>c1\<close>
  (\<^verbatim>\<open>n_residual_blocks = 16\<close>), and 16 additions lie on the way back from \<open>r\<close> to \<open>c1\<close>.
  Every residual block is an \<^verbatim>\<open>Add\<close> of its convolution and normalisation layers and
  of its own input, so its value is their value plus the input's. The tensor that
  is upsampled is \<open>c2\<close>, the \<^verbatim>\<open>Add\<close> of the post-residual feature map and \<open>c1\<close>.
\<close>

theorem C6_generator_residual_structure:
  "(let c1 = Activation relu (Conv2D 64 9 1 None (Input (lr_shape init)));
        r = ((\<lambda>r. residual_block r (gf init)) ^^ 16) c1;
        c2 = Add (BatchNormalization (8 / 10) (Conv2D 64 3 1 None r)) c1
    in n_residual_blocks init = 16
       \<and> outputs (build_generator init) =
            Conv2D (channels init) 9 1 (Some tanh_act) (deconv2d (deconv2d c2))
       \<and> skip_depth r = 16
       \<and> skip_depth c1 = 0
       \<and> eval_tensor W inp c2 =
            map2 (+) (eval_tensor W inp (BatchNormalization (8 / 10) (Conv2D 64 3 1 None r)))
                     (eval_tensor W inp c1))
   \<and> residual_block x f =
        Add (BatchNormalization (8 / 10)
               (Conv2D f 3 1 None
                  (BatchNormalization (8 / 10) (Activation relu (Conv2D f 3 1 None x)))))
            x
   \<and> eval_tensor W inp (residual_block x f) =
        map2 (+) (eval_tensor W inp
                    (BatchNormalization (8 / 10)
                       (Conv2D f 3 1 None
                          (BatchNormalization (8 / 10) (Activation relu (Conv2D f 3 1 None x))))))
                 (eval_tensor W inp x)"
proof -
  let ?c1 = "Activation relu (Conv2D 64 9 1 None (Input (lr_shape init)))"
  let ?r = "((\<lambda>r. residual_block r (gf init)) ^^ 16) ?c1"
  have n: "n_residual_blocks init = 16"
    by (simp add: init_simps)
  have "Suc (n_residual_blocks init - 1) = 16"
    by (simp add: n)
  then have r: "residual_loop (n_residual_blocks init - 1) (residual_block ?c1 (gf init)) (gf init) = ?r"
    by (simp only: residual_stack_funpow)
  have out: "outputs (build_generator init) =
      Conv2D (channels init) 9 1 (Some tanh_act)
        (deconv2d (deconv2d (Add (BatchNormalization (8 / 10) (Conv2D 64 3 1 None ?r)) ?c1)))"
    unfolding build_generator_outputs r ..
  have depth: "skip_depth ?r = 16"
    by (simp only: skip_depth_funpow) simp
  have blk: "eval_tensor W inp (residual_block x f) =
        map2 (+) (eval_tensor W inp
                    (BatchNormalization (8 / 10)
                       (Conv2D f 3 1 None
                          (BatchNormalization (8 / 10) (Activation relu (Conv2D f 3 1 None x))))))
                 (eval_tensor W inp x)"
    by (simp only: residual_block_unfold eval_tensor.simps)
  show ?thesis
    unfolding Let_def
    using n out depth blk residual_block_unfold [of x f]
    by (simp only: skip_depth.simps eval_tensor.simps)
qed

section \<open>The discriminator graph\<close>

lemma build_discriminator_init: "discriminator init = build_discriminator init"
  by (simp add: init_simps init_attrs_simps build_discriminator_def)

lemma sigmoid_fn_range: "0 \<le> sigmoid_fn v \<and> sigmoid_fn v \<le> 1"
proof -
  have "0 < exp (- v)" by simp
  then show ?thesis by (simp add: sigmoid_fn_def add_pos_pos less_imp_le)
qed

lemma np_full_samples:
  "np_full (n # sample) v = replicate n (NdArray sample (replicate (prod_list sample) v))"
  by (simp add: np_full_def)

lemma conv_output_length_2: "conv_output_length n 2 = (n + 1) div 2"
  by (simp add: conv_output_length_def)

text \<open>
  Claim C5. The discriminator is a patch classifier. On an input of the
  high-resolution shape \<open>(256, 256, 3)\<close> its output has shape \<open>(16, 16, 1)\<close>, which is
  \<^verbatim>\<open>disc_patch\<close>, that is \<open>(hr_height div 2^4, hr_height div 2^4, 1)\<close>. Four of its eight
  convolution blocks have stride 2 and halve both spatial sizes; the two \<^verbatim>\<open>Dense\<close>
  layers that follow act on the channel axis at each position. The last layer has a
  sigmoid activation, so every output value lies in \<open>[0, 1]\<close>. The arrays of ones and
  zeros that \<^verbatim>\<open>train\<close> builds as targets hold one sample of shape \<open>(16, 16, 1)\<close> for
  each element of the batch.
\<close>

theorem C5_discriminator_patch_output:
  "(let d0 = Input (hr_shape init);
        d1 = d_block d0 64 1 False;
        d2 = d_block d1 64 2 True;
        d3 = d_block d2 128 1 True;
        d4 = d_block d3 128 2 True;
        d5 = d_block d4 256 1 True;
        d6 = d_block d5 256 2 True;
        d7 = d_block d6 512 1 True;
        d8 = d_block d7 512 2 True
    in outputs (build_discriminator init) =
         Dense 1 (Some sigmoid) (LeakyReLU (2 / 10) (Dense 1024 None d8))
       \<and> map output_shape [d0, d2, d4, d6, d8] =
           [Some (256, 256, 3), Some (128, 128, 64), Some (64, 64, 128),
            Some (32, 32, 256), Some (16, 16, 512)])
   \<and> discriminator init = build_discriminator init
   \<and> inputs (build_discriminator init) = Input (256, 256, 3)
   \<and> conv_strides (outputs (build_discriminator init)) = [1, 2, 1, 2, 1, 2, 1, 2]
   \<and> output_shape (outputs (build_discriminator init)) = Some (16, 16, 1)
   \<and> disc_patch init = (16, 16, 1)
   \<and> disc_patch init = (hr_height init div 2 ^ 4, hr_height init div 2 ^ 4, 1)
   \<and> list_all (\<lambda>v. 0 \<le> v \<and> v \<le> 1) (eval_tensor W inp (outputs (build_discriminator init)))
   \<and> np_ones (batch_size # tuple_list (disc_patch init)) =
        replicate batch_size (NdArray [16, 16, 1] (replicate 256 1))
   \<and> np_zeros (batch_size # tuple_list (disc_patch init)) =
        replicate batch_size (NdArray [16, 16, 1] (replicate 256 0))"
proof -
  have graph: "outputs (build_discriminator init) =
      Dense 1 (Some sigmoid) (LeakyReLU (2 / 10) (Dense 1024 None
        (d_block (d_block (d_block (d_block (d_block (d_block (d_block (d_block
           (Input (hr_shape init)) 64 1 False) 64 2 True) 128 1 True) 128 2 True)
           256 1 True) 256 2 True) 512 1 True) 512 2 True)))"
    by (simp add: build_discriminator_def Let_def init_simps)
  have shapes: "map output_shape
      [Input (hr_shape init),
       d_block (d_block (Input (hr_shape init)) 64 1 False) 64 2 True,
       d_block (d_block (d_block (d_block (Input (hr_shape init)) 64 1 False) 64 2 True) 128 1 True) 128 2 True,
       d_block (d_block (d_block (d_block (d_block (d_block (Input (hr_shape init)) 64 1 False) 64 2 True) 128 1 True) 128 2 True) 256 1 True) 256 2 True,
       d_block (d_block (d_block (d_block (d_block (d_block (d_block (d_block
           (Input (hr_shape init)) 64 1 False) 64 2 True) 128 1 True) 128 2 True)
           256 1 True) 256 2 True) 512 1 True) 512 2 True] =
       [Some (256, 256, 3), Some (128, 128, 64), Some (64, 64, 128),
            Some (32, 32, 256), Some (16, 16, 512)]"
    by (simp add: d_block_def Let_def init_simps conv_output_length_1 conv_output_length_2)
  have inp: "inputs (build_discriminator init) = Input (256, 256, 3)"
    by (simp add: build_discriminator_def Let_def init_simps)
  have strides: "conv_strides (outputs (build_discriminator init)) = [1, 2, 1, 2, 1, 2, 1, 2]"
    unfolding graph by (simp add: d_block_def Let_def)
  have out: "output_shape (outputs (build_discriminator init)) = Some (16, 16, 1)"
    unfolding graph
    by (simp add: d_block_def Let_def init_simps conv_output_length_1 conv_output_length_2)
  have patch: "disc_patch init = (16, 16, 1)"
    "disc_patch init = (hr_height init div 2 ^ 4, hr_height init div 2 ^ 4, 1)"
    by (simp_all add: init_simps)
  have range: "list_all (\<lambda>v. 0 \<le> v \<and> v \<le> 1) (eval_tensor W inp (outputs (build_discriminator init)))"
    unfolding graph
    by (simp only: eval_tensor.simps activate.simps act_fn.simps)
      (simp add: list_all_iff sigmoid_fn_range)
  have targets: "np_ones (batch_size # tuple_list (disc_patch init)) =
        replicate batch_size (NdArray [16, 16, 1] (replicate 256 1))"
    "np_zeros (batch_size # tuple_list (disc_patch init)) =
        replicate batch_size (NdArray [16, 16, 1] (replicate 256 0))"
    by (simp_all add: np_ones_def np_zeros_def np_full_samples tuple_list_def init_simps)
  show ?thesis
    unfolding Let_def
    using graph shapes inp strides out patch range targets build_discriminator_init
    by blast
qed

section \<open>Evaluation: test_images and sample_images_new\<close>

lemma str_2000: "str 2000 = ''2000''"
  by (simp add: str_def)

lemma raised_None: "raised r = None \<Longrightarrow> r = Inr (final_state r)"
  by (cases r) (auto simp add: raised_def final_state_def)

lemma raised_Some: "raised r = Some e \<Longrightarrow> r = Inl (e, final_state r)"
  by (cases r) (auto simp add: raised_def final_state_def)

lemma result_simps:
  "raised (Inl (e, s)) = Some e" "raised (Inr s) = None"
  "final_state (Inl (e, s)) = s" "final_state (Inr s) = s"
  by (simp_all add: raised_def final_state_def)

lemma reading_append:
  "saved_figures (xs @ ys) = saved_figures xs @ saved_figures ys"
  "saved_weights (xs @ ys) = saved_weights xs @ saved_weights ys"
  "psnr_calls (xs @ ys) = psnr_calls xs @ psnr_calls ys"
  "ssim_calls (xs @ ys) = ssim_calls xs @ ssim_calls ys"
  by (simp_all add: saved_figures_def saved_weights_def psnr_calls_def ssim_calls_def)

lemma plot_rows_lists:
  "plot_rows r [a, b] =
     (if 2 \<le> r \<and> r \<le> length a \<and> r \<le> length b then None
      else if r = 0 then Some ValueError else Some IndexError)"
  "plot_rows r [a, b, c] =
     (if 2 \<le> r \<and> r \<le> length a \<and> r \<le> length b \<and> r \<le> length c then None
      else if r = 0 then Some ValueError else Some IndexError)"
  by (auto simp add: plot_rows_def)

lemma plot_rows_drawable:
  assumes "length fake_hr = length imgs_lr" and "length hr = length imgs_hr"
    and "length lr = length imgs_lr"
  shows "plot_rows (length imgs_hr) [lr, fake_hr] =
           (if drawable (imgs_hr, imgs_lr) then None
            else if imgs_hr = [] then Some ValueError else Some IndexError)"
    and "plot_rows (length imgs_hr) [fake_hr, hr, lr] =
           (if drawable (imgs_hr, imgs_lr) then None
            else if imgs_hr = [] then Some ValueError else Some IndexError)"
  using assms by (simp_all add: plot_rows_lists drawable_def)

lemma length_rescale: "length (rescale xs) = length xs"
  by (simp add: rescale_def)

lemma rescale_compose: "(0.5 * x + 0.5 + 1) * 127.5 = 63.75 * x + (191.25 :: real)"
  by (simp add: algebra_simps)

lemma rescale_then_uint8:
  "data (to_uint8 (elementwise (\<lambda>v. 0.5 * v + 0.5) img)) =
     map (\<lambda>x. astype_uint8 (63.75 * x + 191.25)) (data img)"
proof -
  have "data (to_uint8 (elementwise (\<lambda>v. 0.5 * v + 0.5) img)) =
     map (\<lambda>x. astype_uint8 ((0.5 * x + 0.5 + 1) * 127.5)) (data img)"
    by (simp add: to_uint8_def elementwise_def)
  then show ?thesis by (simp only: rescale_compose)
qed

lemma astype_uint8_range:
  assumes "- 1 \<le> x" and "x \<le> 1"
  shows "127 \<le> unat (astype_uint8 (63.75 * x + 191.25))"
    and "unat (astype_uint8 (63.75 * x + 191.25)) \<le> 255"
proof -
  define y where "y = 63.75 * x + 191.25"
  have lo: "127.5 \<le> y" and hi: "y \<le> 255"
    using assms by (simp_all add: y_def)
  have f1: "127 \<le> \<lfloor>y\<rfloor>" using lo by (simp add: le_floor_iff)
  have f2: "\<lfloor>y\<rfloor> \<le> 255" using hi by (simp add: floor_le_iff)
  have "0 \<le> y" using lo by simp
  then have "astype_uint8 y = word_of_int \<lfloor>y\<rfloor>"
    by (simp add: astype_uint8_def)
  moreover have "unat (word_of_int \<lfloor>y\<rfloor> :: 8 word) = nat \<lfloor>y\<rfloor>"
    using f1 f2 by (simp add: unsigned_of_int take_bit_int_eq_self)
  ultimately have u: "unat (astype_uint8 y) = nat \<lfloor>y\<rfloor>" by simp
  have "127 \<le> nat \<lfloor>y\<rfloor>" "nat \<lfloor>y\<rfloor> \<le> 255"
    using f1 f2 by linarith+
  then have "127 \<le> unat (astype_uint8 y)" "unat (astype_uint8 y) \<le> 255"
    by (simp_all only: u)
  then show "127 \<le> unat (astype_uint8 (63.75 * x + 191.25))"
    and "unat (astype_uint8 (63.75 * x + 191.25)) \<le> 255"
    by (simp_all only: y_def)
qed


lemma tanh_pixels: "list_all (\<lambda>v. - 1 \<le> v \<and> v \<le> 1) (map tanh (vs :: real list))"
  by (simp add: list_all_iff less_imp_le tanh_real_gt_neg1 tanh_real_lt_1)

lemma eval_generator_range:
  "list_all (\<lambda>v. - 1 \<le> v \<and> v \<le> 1) (eval_tensor W inp (outputs (build_generator self)))"
  unfolding build_generator_outputs
  by (simp only: eval_tensor.simps activate.simps) (simp add: tanh_pixels [unfolded list_all_iff] list_all_iff)

lemma forward_generator_range:
  "list_all (\<lambda>img. list_all (\<lambda>v. - 1 \<le> v \<and> v \<le> 1) (data img))
     (map (forward (build_generator self) W) xs)"
  by (simp add: list_all_iff forward_def eval_generator_range [unfolded list_all_iff])

lemma rescale_range:
  assumes "list_all (\<lambda>img. list_all (\<lambda>v. - 1 \<le> v \<and> v \<le> 1) (data img)) xs"
  shows "list_all (\<lambda>img. list_all (\<lambda>v. 0 \<le> v \<and> v \<le> 1) (data img)) (rescale xs)"
  unfolding list_all_iff
proof (intro ballI)
  fix img v
  assume img: "img \<in> set (rescale xs)" and v: "v \<in> set (data img)"
  from img obtain img0 where img0: "img0 \<in> set xs"
    and eq: "img = elementwise (\<lambda>v. 0.5 * v + 0.5) img0"
    by (auto simp add: rescale_def)
  from v eq obtain v0 where v0: "v0 \<in> set (data img0)" and veq: "v = 0.5 * v0 + 0.5"
    by (auto simp add: elementwise_def)
  from assms img0 v0 have "- 1 \<le> v0 \<and> v0 \<le> 1"
    by (simp add: list_all_iff)
  then show "0 \<le> v \<and> v \<le> 1"
    by (simp add: veq)
qed

lemma zip_rescale:
  "zip (rescale xs) (rescale ys) =
     map (\<lambda>(h, f). (elementwise (\<lambda>v. 0.5 * v + 0.5) h, elementwise (\<lambda>v. 0.5 * v + 0.5) f))
       (zip xs ys)"
  by (simp add: rescale_def zip_map_map)

lemma uint8_range_image:
  assumes "list_all (\<lambda>v. - 1 \<le> v \<and> v \<le> 1) (data img)"
  shows "list_all (\<lambda>p. 127 \<le> unat p \<and> unat p \<le> 255)
           (data (to_uint8 (elementwise (\<lambda>v. 0.5 * v + 0.5) img)))"
  unfolding list_all_iff rescale_then_uint8
proof (intro ballI)
  fix p
  assume "p \<in> set (map (\<lambda>x. astype_uint8 (63.75 * x + 191.25)) (data img))"
  then obtain x where x: "x \<in> set (data img)" and p: "p = astype_uint8 (63.75 * x + 191.25)"
    unfolding set_map by blast
  from assms x have "- 1 \<le> x" and "x \<le> 1"
    unfolding list_all_iff by blast+
  then show "127 \<le> unat p \<and> unat p \<le> 255"
    unfolding p by (intro conjI astype_uint8_range)
qed


lemma metric_loop_fields:
  "psnr_values (metric_loop world ps s) =
     psnr_values s @ map (\<lambda>(r, g). psnr world (to_uint8 r) (to_uint8 g)) ps"
  "ssim_values (metric_loop world ps s) =
     ssim_values s @ map (\<lambda>(r, g). ssim world (to_uint8 r) (to_uint8 g) True) ps"
  "log (metric_loop world ps s) =
     log s @ concat (map (\<lambda>(r, g). [PsnrCall (to_uint8 r) (to_uint8 g),
                                      SsimCall (to_uint8 r) (to_uint8 g) True]) ps)"
  "net_weights (metric_loop world ps s) = net_weights s"
  "avg_psnr (metric_loop world ps s) = avg_psnr s"
  "avg_ssim (metric_loop world ps s) = avg_ssim s"
proof (induction ps arbitrary: s)
  case Nil
  {
    case 1 show ?case by simp
  next
    case 2 show ?case by simp
  next
    case 3 show ?case by simp
  next
    case 4 show ?case by simp
  next
    case 5 show ?case by simp
  next
    case 6 show ?case by simp
  }
next
  case (Cons p ps)
  obtain r g where p: "p = (r, g)" by (cases p)
  {
    case 1 show ?case by (simp add: p Cons.IH Let_def emit_def)
  next
    case 2 show ?case by (simp add: p Cons.IH Let_def emit_def)
  next
    case 3 show ?case by (simp add: p Cons.IH Let_def emit_def)
  next
    case 4 show ?case by (simp add: p Cons.IH Let_def emit_def)
  next
    case 5 show ?case by (simp add: p Cons.IH Let_def emit_def)
  next
    case 6 show ?case by (simp add: p Cons.IH Let_def emit_def)
  }
qed


lemma test_images_raises:
  assumes ld: "load_data world (loads s) batch_size None (Some True) = (imgs_hr, imgs_lr)"
    and nd: "\<not> drawable (imgs_hr, imgs_lr)"
    and res: "res = test_images world self batch_size s"
  shows "raised res = Some (if imgs_hr = [] then ValueError else IndexError)"
    and "log (final_state res) =
           log s @ [LoadData batch_size None (Some True), MakeDirs ''saved_model/'',
                    LoadWeights ''./saved_model/2000.h5'', Predict Generator imgs_lr]"
    and "psnr_values (final_state res) = []" and "ssim_values (final_state res) = []"
    and "avg_psnr (final_state res) = None" and "avg_ssim (final_state res) = None"
  using ld nd unfolding res
  by (auto simp add: test_images_def data_loader_load_data_def generator_predict_def emit_def
      Let_def str_2000 plot_rows_lists drawable_def length_rescale result_simps
      io_state.defs test_state.defs)

lemma test_images_returns:
  assumes ld: "load_data world (loads s) batch_size None (Some True) = (imgs_hr, imgs_lr)"
    and d: "drawable (imgs_hr, imgs_lr)"
    and fake: "fake_hr = rescale (map (forward (generator self)
                            (read_weights world ''./saved_model/2000.h5'')) imgs_lr)"
    and pairs: "pairs = map (\<lambda>(h, f). (to_uint8 h, to_uint8 f)) (zip (rescale imgs_hr) fake_hr)"
    and res: "res = test_images world self batch_size s"
  shows "raised res = None"
    and "psnr_values (final_state res) = map (\<lambda>(a, b). psnr world a b) pairs"
    and "ssim_values (final_state res) = map (\<lambda>(a, b). ssim world a b True) pairs"
    and "avg_psnr (final_state res) = np_mean (map (\<lambda>(a, b). psnr world a b) pairs)"
    and "avg_ssim (final_state res) = np_mean (map (\<lambda>(a, b). ssim world a b True) pairs)"
    and "log (final_state res) =
           log s @ [LoadData batch_size None (Some True), MakeDirs ''saved_model/'',
                    LoadWeights ''./saved_model/2000.h5'', Predict Generator imgs_lr,
                    SaveFig ''./result.png'' [rescale imgs_lr, fake_hr]]
             @ imsave_events (rescale imgs_lr) fake_hr
             @ concat (map (\<lambda>(a, b). [PsnrCall a b, SsimCall a b True]) pairs)
             @ [PrintList (map (\<lambda>(a, b). psnr world a b) pairs),
                PrintList (map (\<lambda>(a, b). ssim world a b True) pairs),
                PrintRounded ''Average PSNR: '' (np_mean (map (\<lambda>(a, b). psnr world a b) pairs)) 2,
                PrintRounded ''Average SSIM: '' (np_mean (map (\<lambda>(a, b). ssim world a b True) pairs)) 4,
                PrintEnd]"
  using ld d unfolding res fake pairs
  by (simp_all add: test_images_def data_loader_load_data_def generator_predict_def emit_def
      Let_def str_2000 plot_rows_lists drawable_def length_rescale result_simps
      metric_loop_fields io_state.defs test_state.defs split_def comp_def)


lemma sample_images_new_cases:
  assumes ld: "load_data world (loads s) 1 (Some True) (Some True) = (imgs_hr, imgs_lr)"
    and res: "res = sample_images_new world self epoch s"
  shows "raised res =
           (if drawable (imgs_hr, imgs_lr) then None
            else Some (if imgs_hr = [] then ValueError else IndexError))"
    and "log (final_state res) =
           log s @ [MakeDirs ''images/'', LoadData 1 (Some True) (Some True),
                    Predict Generator imgs_lr]
             @ (if drawable (imgs_hr, imgs_lr)
                then [SaveFig (''images/'' @ str epoch @ ''.png'')
                        [rescale (map (forward (generator self) (net_weights s Generator)) imgs_lr),
                         rescale imgs_hr, rescale imgs_lr]]
                else [])"
    and "net_weights (final_state res) = net_weights s"
    and "loads (final_state res) = Suc (loads s)"
    and "io_state.more (final_state res) = io_state.more s"
proof -
  have ld': "load_data world (loads s) (Suc 0) (Some True) (Some True) = (imgs_hr, imgs_lr)"
    using ld by simp
  show "raised res =
           (if drawable (imgs_hr, imgs_lr) then None
            else Some (if imgs_hr = [] then ValueError else IndexError))"
    and "log (final_state res) =
           log s @ [MakeDirs ''images/'', LoadData 1 (Some True) (Some True),
                    Predict Generator imgs_lr]
             @ (if drawable (imgs_hr, imgs_lr)
                then [SaveFig (''images/'' @ str epoch @ ''.png'')
                        [rescale (map (forward (generator self) (net_weights s Generator)) imgs_lr),
                         rescale imgs_hr, rescale imgs_lr]]
                else [])"
    and "net_weights (final_state res) = net_weights s"
    and "loads (final_state res) = Suc (loads s)"
    and "io_state.more (final_state res) = io_state.more s"
    unfolding res
    by (auto simp add: sample_images_new_def data_loader_load_data_def generator_predict_def
        emit_def Let_def ld' plot_rows_lists drawable_def length_rescale result_simps)
qed

lemma imsave_events_reading:
  "psnr_calls (imsave_events a b) = []" "ssim_calls (imsave_events a b) = []"
  "saved_figures (imsave_events a b) = []"
proof -
  have none: "psnr_calls es = [] \<and> ssim_calls es = [] \<and> saved_figures es = []"
    if "list_all (\<lambda>e. \<exists>p i. e = ImSave p i) es" for es
    using that
    by (induction es) (auto simp add: psnr_calls_def ssim_calls_def saved_figures_def)
  have "list_all (\<lambda>e. \<exists>p i. e = ImSave p i) (imsave_events a b)"
    by (auto simp add: imsave_events_def list_all_iff)
  from none [OF this]
  show "psnr_calls (imsave_events a b) = []" "ssim_calls (imsave_events a b) = []"
    "saved_figures (imsave_events a b) = []"
    by simp_all
qed

lemma metric_events_reading:
  "psnr_calls (concat (map (\<lambda>(a, b). [PsnrCall a b, SsimCall a b True]) pairs)) = pairs"
  "ssim_calls (concat (map (\<lambda>(a, b). [PsnrCall a b, SsimCall a b True]) pairs)) = pairs"
  "saved_figures (concat (map (\<lambda>(a, b). [PsnrCall a b, SsimCall a b True]) pairs)) = []"
  by (induction pairs) (auto simp add: psnr_calls_def ssim_calls_def saved_figures_def)

lemma to_uint8_unfold:
  "to_uint8 img = NdArray (shape img) (map (\<lambda>v. astype_uint8 ((v + 1) * 127.5)) (data img))"
  by (simp add: to_uint8_def elementwise_def)

lemma to_uint8_example: "to_uint8 (NdArray [2] [0, 1]) = NdArray [2] [127, 255]"
  by (simp add: to_uint8_def elementwise_def astype_uint8_def)

lemma test_images_calls:
  assumes ld: "load_data world (loads s) batch_size None (Some True) = (imgs_hr, imgs_lr)"
    and fake: "fake_hr = rescale (map (forward (generator self)
                            (read_weights world ''./saved_model/2000.h5'')) imgs_lr)"
    and pairs: "pairs = map (\<lambda>(h, f). (to_uint8 h, to_uint8 f)) (zip (rescale imgs_hr) fake_hr)"
    and res: "res = test_images world self batch_size s"
  shows "psnr_calls (log (final_state res)) =
           psnr_calls (log s) @ (if drawable (imgs_hr, imgs_lr) then pairs else [])"
    and "ssim_calls (log (final_state res)) =
           ssim_calls (log s) @ (if drawable (imgs_hr, imgs_lr) then pairs else [])"
proof -
  have pre: "psnr_calls [LoadData batch_size None (Some True), MakeDirs ''saved_model/'',
                    LoadWeights ''./saved_model/2000.h5'', Predict Generator imgs_lr] = []"
    "ssim_calls [LoadData batch_size None (Some True), MakeDirs ''saved_model/'',
                    LoadWeights ''./saved_model/2000.h5'', Predict Generator imgs_lr] = []"
    "psnr_calls [LoadData batch_size None (Some True), MakeDirs ''saved_model/'',
                    LoadWeights ''./saved_model/2000.h5'', Predict Generator imgs_lr,
                    SaveFig ''./result.png'' [rescale imgs_lr, fake_hr]] = []"
    "ssim_calls [LoadData batch_size None (Some True), MakeDirs ''saved_model/'',
                    LoadWeights ''./saved_model/2000.h5'', Predict Generator imgs_lr,
                    SaveFig ''./result.png'' [rescale imgs_lr, fake_hr]] = []"
    "psnr_calls [PrintList xs, PrintList ys, PrintRounded l1 v1 2, PrintRounded l2 v2 4, PrintEnd] = []"
    "ssim_calls [PrintList xs, PrintList ys, PrintRounded l1 v1 2, PrintRounded l2 v2 4, PrintEnd] = []"
    for xs ys l1 v1 l2 v2
    by (simp_all add: psnr_calls_def ssim_calls_def)
  show "psnr_calls (log (final_state res)) =
           psnr_calls (log s) @ (if drawable (imgs_hr, imgs_lr) then pairs else [])"
  proof (cases "drawable (imgs_hr, imgs_lr)")
    case True
    show ?thesis
      unfolding test_images_returns(6) [OF ld True fake pairs res]
      by (simp only: reading_append pre imsave_events_reading metric_events_reading True)
        simp
  next
    case False
    show ?thesis
      unfolding test_images_raises(2) [OF ld False res]
      by (simp only: reading_append pre False) simp
  qed
  show "ssim_calls (log (final_state res)) =
           ssim_calls (log s) @ (if drawable (imgs_hr, imgs_lr) then pairs else [])"
  proof (cases "drawable (imgs_hr, imgs_lr)")
    case True
    show ?thesis
      unfolding test_images_returns(6) [OF ld True fake pairs res]
      by (simp only: reading_append pre imsave_events_reading metric_events_reading True)
        simp
  next
    case False
    show ?thesis
      unfolding test_images_raises(2) [OF ld False res]
      by (simp only: reading_append pre False) simp
  qed
qed


lemma length_pairs:
  assumes "drawable (imgs_hr, imgs_lr)"
  shows "length (map (\<lambda>(h, f). (to_uint8 h, to_uint8 f))
                   (zip (rescale imgs_hr) (rescale (map g imgs_lr)))) = length imgs_hr"
    and "map (\<lambda>(h, f). (to_uint8 h, to_uint8 f))
           (zip (rescale imgs_hr) (rescale (map g imgs_lr))) \<noteq> []"
proof -
  from assms have le: "length imgs_hr \<le> length imgs_lr" and two: "2 \<le> length imgs_hr"
    by (simp_all add: drawable_def)
  have "length (map (\<lambda>(h, f). (to_uint8 h, to_uint8 f))
                   (zip (rescale imgs_hr) (rescale (map g imgs_lr)))) =
        min (length imgs_hr) (length imgs_lr)"
    by (simp add: length_rescale)
  with le show len: "length (map (\<lambda>(h, f). (to_uint8 h, to_uint8 f))
                   (zip (rescale imgs_hr) (rescale (map g imgs_lr)))) = length imgs_hr"
    by simp
  show "map (\<lambda>(h, f). (to_uint8 h, to_uint8 f))
           (zip (rescale imgs_hr) (rescale (map g imgs_lr))) \<noteq> []"
  proof
    assume "map (\<lambda>(h, f). (to_uint8 h, to_uint8 f))
           (zip (rescale imgs_hr) (rescale (map g imgs_lr))) = []"
    then have "length (map (\<lambda>(h, f). (to_uint8 h, to_uint8 f))
           (zip (rescale imgs_hr) (rescale (map g imgs_lr)))) = 0"
      by (simp only: list.size)
    with len two show False by simp
  qed
qed

text \<open>
  Claim C7. \<^verbatim>\<open>test_images\<close> computes one PSNR value and one SSIM value for each pair
  of a real and a generated high-resolution image of the batch, both converted to
  \<^verbatim>\<open>uint8\<close> first (\<open>v \<mapsto> (v + 1) * 127.5\<close>, truncated), and the two averages it prints
  are the arithmetic means of these values over the pairs.

  The code does so only for a batch it can plot. The scoring loop of lines 261-274
  comes after the plotting loop of lines 246-251, which indexes the axes of
  \<^verbatim>\<open>plt.subplots(r, 2)\<close> as \<^verbatim>\<open>axs[row, col]\<close>, \<open>r\<close> being the number of high-resolution
  images. The theorem states both halves: for a batch that can be drawn (two or more
  high-resolution images and no fewer low-resolution ones) the metric functions are
  called on exactly the \<^verbatim>\<open>uint8\<close> pairs, in order, one pair per high-resolution image,
  and the printed averages are the means of the returned values; for every other
  batch \<^verbatim>\<open>test_images\<close> raises (\<^verbatim>\<open>ValueError\<close> for no image, \<^verbatim>\<open>IndexError\<close> otherwise)
  before any pair is scored, so that no value and no average exists.
\<close>

theorem C7_scoring_needs_two_images:
  "(case load_data world (loads s) batch_size None (Some True) of
      (imgs_hr, imgs_lr) \<Rightarrow>
        (let fake_hr = rescale (map (forward (generator self)
                                  (read_weights world ''./saved_model/2000.h5'')) imgs_lr);
             pairs = map (\<lambda>(h, f). (to_uint8 h, to_uint8 f)) (zip (rescale imgs_hr) fake_hr);
             res = test_images world self batch_size s;
             fin = final_state res
         in psnr_calls (log fin) = psnr_calls (log s) @ (if drawable (imgs_hr, imgs_lr) then pairs else [])
            \<and> ssim_calls (log fin) = ssim_calls (log s) @ (if drawable (imgs_hr, imgs_lr) then pairs else [])
            \<and> (if drawable (imgs_hr, imgs_lr)
                then raised res = None
                   \<and> psnr_values fin = map (\<lambda>(a, b). psnr world a b) pairs
                   \<and> ssim_values fin = map (\<lambda>(a, b). ssim world a b True) pairs
                   \<and> length pairs = length imgs_hr
                   \<and> avg_psnr fin = Some (sum_list (psnr_values fin) / real (length pairs))
                   \<and> avg_ssim fin = Some (sum_list (ssim_values fin) / real (length pairs))
                   \<and> PrintRounded ''Average PSNR: '' (avg_psnr fin) 2 \<in> set (log fin)
                   \<and> PrintRounded ''Average SSIM: '' (avg_ssim fin) 4 \<in> set (log fin)
                else raised res = Some (if imgs_hr = [] then ValueError else IndexError)
                   \<and> psnr_values fin = [] \<and> ssim_values fin = []
                   \<and> avg_psnr fin = None \<and> avg_ssim fin = None)))
   \<and> to_uint8 img = NdArray (shape img) (map (\<lambda>v. astype_uint8 ((v + 1) * 127.5)) (data img))
   \<and> to_uint8 (NdArray [2] [0, 1]) = NdArray [2] [127, 255]"
proof -
  obtain imgs_hr imgs_lr where ld: "load_data world (loads s) batch_size None (Some True) = (imgs_hr, imgs_lr)"
    by (cases "load_data world (loads s) batch_size None (Some True)")
  define fake_hr where "fake_hr = rescale (map (forward (generator self)
                                  (read_weights world ''./saved_model/2000.h5'')) imgs_lr)"
  define pairs where "pairs = map (\<lambda>(h, f). (to_uint8 h, to_uint8 f)) (zip (rescale imgs_hr) fake_hr)"
  define res where "res = test_images world self batch_size s"
  note calls = test_images_calls [OF ld fake_hr_def pairs_def res_def]
  have main: "if drawable (imgs_hr, imgs_lr)
                then raised res = None
                   \<and> psnr_values (final_state res) = map (\<lambda>(a, b). psnr world a b) pairs
                   \<and> ssim_values (final_state res) = map (\<lambda>(a, b). ssim world a b True) pairs
                   \<and> length pairs = length imgs_hr
                   \<and> avg_psnr (final_state res) =
                       Some (sum_list (psnr_values (final_state res)) / real (length pairs))
                   \<and> avg_ssim (final_state res) =
                       Some (sum_list (ssim_values (final_state res)) / real (length pairs))
                   \<and> PrintRounded ''Average PSNR: '' (avg_psnr (final_state res)) 2
                       \<in> set (log (final_state res))
                   \<and> PrintRounded ''Average SSIM: '' (avg_ssim (final_state res)) 4
                       \<in> set (log (final_state res))
                else raised res = Some (if imgs_hr = [] then ValueError else IndexError)
                   \<and> psnr_values (final_state res) = [] \<and> ssim_values (final_state res) = []
                   \<and> avg_psnr (final_state res) = None \<and> avg_ssim (final_state res) = None"
  proof (cases "drawable (imgs_hr, imgs_lr)")
    case True
    note r = test_images_returns [OF ld True fake_hr_def pairs_def res_def]
    have len: "length pairs = length imgs_hr" and ne: "pairs \<noteq> []"
      unfolding pairs_def fake_hr_def using length_pairs [OF True] by blast+
    have "avg_psnr (final_state res) =
        Some (sum_list (psnr_values (final_state res)) / real (length pairs))"
      "avg_ssim (final_state res) =
        Some (sum_list (ssim_values (final_state res)) / real (length pairs))"
      using ne by (simp_all add: r np_mean_def)
    moreover have "PrintRounded ''Average PSNR: '' (avg_psnr (final_state res)) 2
                       \<in> set (log (final_state res))"
      "PrintRounded ''Average SSIM: '' (avg_ssim (final_state res)) 4
                       \<in> set (log (final_state res))"
      by (simp_all add: r)
    ultimately show ?thesis
      using True r(1,2,3) len by simp
  next
    case False
    note r = test_images_raises [OF ld False res_def]
    show ?thesis using False r by simp
  qed
  show ?thesis
    unfolding ld prod.case Let_def
    using calls main to_uint8_unfold [of img] to_uint8_example
    unfolding fake_hr_def pairs_def res_def
    by blast
qed

text \<open>
  The default call \<^verbatim>\<open>test_images()\<close> asks the loader for \<^verbatim>\<open>batch_size=1\<close>. With a loader
  that returns the one pair it is asked for, \<^verbatim>\<open>plt.subplots(1, 2)\<close> returns a
  one-dimensional array of axes, \<^verbatim>\<open>axs[0, 0]\<close> raises \<^verbatim>\<open>IndexError\<close> at line 249, and
  the batch is never scored.
\<close>

theorem C7_one_image_batch_raises:
  "raised (test_images plain_world init 1 fresh_state) = Some IndexError
   \<and> psnr_calls (log (final_state (test_images plain_world init 1 fresh_state))) = []
   \<and> ssim_calls (log (final_state (test_images plain_world init 1 fresh_state))) = []
   \<and> psnr_values (final_state (test_images plain_world init 1 fresh_state)) = []
   \<and> ssim_values (final_state (test_images plain_world init 1 fresh_state)) = []
   \<and> avg_psnr (final_state (test_images plain_world init 1 fresh_state)) = None
   \<and> avg_ssim (final_state (test_images plain_world init 1 fresh_state)) = None"
proof -
  have ld: "load_data plain_world (loads fresh_state) 1 None (Some True) =
      ([black [256, 256, 3]], [black [64, 64, 3]])"
    by (simp add: plain_world_def)
  have nd: "\<not> drawable ([black [256, 256, 3]], [black [64, 64, 3]])"
    by (simp add: drawable_def)
  have e: "psnr_calls (log fresh_state) = []" "ssim_calls (log fresh_state) = []"
    by (simp_all add: fresh_state_def psnr_calls_def ssim_calls_def)
  from C7_scoring_needs_two_images [where world = plain_world and s = fresh_state
      and batch_size = 1 and self = init]
  show ?thesis
    unfolding ld prod.case Let_def e using nd by simp
qed


lemma generated_pairs_range:
  "list_all (\<lambda>(r, g). list_all (\<lambda>p. 127 \<le> unat p \<and> unat p \<le> 255) (data g))
     (map (\<lambda>(h, f). (to_uint8 h, to_uint8 f))
        (zip (rescale imgs_hr) (rescale (map (forward (generator init) W) imgs_lr))))"
proof -
  define fake where "fake = map (forward (generator init) W) imgs_lr"
  define up where "up = (\<lambda>img. to_uint8 (elementwise (\<lambda>v. 0.5 * v + 0.5) img))"
  have pairs: "map (\<lambda>(h, f). (to_uint8 h, to_uint8 f)) (zip (rescale imgs_hr) (rescale fake)) =
      map (\<lambda>(h, f). (up h, up f)) (zip imgs_hr fake)"
    unfolding up_def by (simp add: zip_rescale split_def comp_def)
  have "list_all (\<lambda>img. list_all (\<lambda>v. - 1 \<le> v \<and> v \<le> 1) (data img)) fake"
    unfolding fake_def build_generator_init by (rule forward_generator_range)
  then have ok: "list_all (\<lambda>p. 127 \<le> unat p \<and> unat p \<le> 255) (data (up f))" if "f \<in> set fake" for f
    using that unfolding up_def list_all_iff [of _ fake] by (blast intro: uint8_range_image)
  have "list_all (\<lambda>p. 127 \<le> unat p \<and> unat p \<le> 255) (data (up (snd q)))"
    if "q \<in> set (zip imgs_hr fake)" for q
  proof -
    from that have "snd q \<in> set fake"
      by (metis prod.collapse set_zip_rightD)
    then show ?thesis by (rule ok)
  qed
  then show ?thesis
    unfolding fake_def [symmetric] pairs by (simp add: list_all_iff split_def)
qed

text \<open>
  Claim C8. The images handed to PSNR and SSIM in \<^verbatim>\<open>test_images\<close> have been rescaled
  twice, by \<open>x \<mapsto> 0.5 x + 0.5\<close> and then by \<open>y \<mapsto> (y + 1) * 127.5\<close>, together
  \<open>x \<mapsto> 63.75 x + 191.25\<close>. An image with entries in \<open>[-1, 1]\<close> therefore becomes a
  \<^verbatim>\<open>uint8\<close> array with entries in \<open>[127, 255]\<close> only. The pairs handed to the metric
  functions are the doubly rescaled pairs when the batch can be plotted and none
  otherwise, and every generated image among them has its entries in \<open>[127, 255]\<close>,
  whatever the weights.
\<close>

theorem C8_metric_inputs_upper_half:
  assumes "list_all (\<lambda>v. - 1 \<le> v \<and> v \<le> 1) (data img)"
  shows "data (to_uint8 (elementwise (\<lambda>v. 0.5 * v + 0.5) img)) =
           map (\<lambda>x. astype_uint8 (63.75 * x + 191.25)) (data img)
       \<and> list_all (\<lambda>p. 127 \<le> unat p \<and> unat p \<le> 255)
           (data (to_uint8 (elementwise (\<lambda>v. 0.5 * v + 0.5) img)))
       \<and> (case load_data world (loads s) batch_size None (Some True) of
            (imgs_hr, imgs_lr) \<Rightarrow>
              psnr_calls (log (final_state (test_images world self batch_size s))) =
                psnr_calls (log s) @
                (if drawable (imgs_hr, imgs_lr)
                 then map (\<lambda>(h, f). (to_uint8 (elementwise (\<lambda>v. 0.5 * v + 0.5) h),
                                       to_uint8 (elementwise (\<lambda>v. 0.5 * v + 0.5) f)))
                        (zip imgs_hr
                           (map (forward (generator self)
                                   (read_weights world ''./saved_model/2000.h5'')) imgs_lr))
                 else []))
       \<and> (\<exists>handed. psnr_calls (log (final_state (test_images world init batch_size s))) =
                      psnr_calls (log s) @ handed
             \<and> ssim_calls (log (final_state (test_images world init batch_size s))) =
                      ssim_calls (log s) @ handed
             \<and> list_all (\<lambda>(r, g). list_all (\<lambda>p. 127 \<le> unat p \<and> unat p \<le> 255) (data g))
                  handed)"
proof -
  obtain imgs_hr imgs_lr where ld: "load_data world (loads s) batch_size None (Some True) = (imgs_hr, imgs_lr)"
    by (cases "load_data world (loads s) batch_size None (Some True)")
  have third: "psnr_calls (log (final_state (test_images world self batch_size s))) =
                psnr_calls (log s) @
                (if drawable (imgs_hr, imgs_lr)
                 then map (\<lambda>(h, f). (to_uint8 (elementwise (\<lambda>v. 0.5 * v + 0.5) h),
                                       to_uint8 (elementwise (\<lambda>v. 0.5 * v + 0.5) f)))
                        (zip imgs_hr
                           (map (forward (generator self)
                                   (read_weights world ''./saved_model/2000.h5'')) imgs_lr))
                 else [])"
    unfolding test_images_calls(1) [OF ld refl refl refl]
    by (simp add: zip_rescale split_def comp_def)
  define handed where "handed =
      (if drawable (imgs_hr, imgs_lr)
       then map (\<lambda>(h, f). (to_uint8 h, to_uint8 f))
              (zip (rescale imgs_hr)
                 (rescale (map (forward (generator init)
                            (read_weights world ''./saved_model/2000.h5'')) imgs_lr)))
       else [])"
  have "psnr_calls (log (final_state (test_images world init batch_size s))) =
      psnr_calls (log s) @ handed"
    "ssim_calls (log (final_state (test_images world init batch_size s))) =
      ssim_calls (log s) @ handed"
    unfolding handed_def by (simp_all only: test_images_calls [OF ld refl refl refl])
  moreover have "list_all (\<lambda>(r, g). list_all (\<lambda>p. 127 \<le> unat p \<and> unat p \<le> 255) (data g)) handed"
    unfolding handed_def using generated_pairs_range by simp
  ultimately have fourth: "\<exists>handed. psnr_calls (log (final_state (test_images world init batch_size s))) =
                      psnr_calls (log s) @ handed
             \<and> ssim_calls (log (final_state (test_images world init batch_size s))) =
                      ssim_calls (log s) @ handed
             \<and> list_all (\<lambda>(r, g). list_all (\<lambda>p. 127 \<le> unat p \<and> unat p \<le> 255) (data g))
                  handed"
    by blast
  show ?thesis
    unfolding ld prod.case
    using rescale_then_uint8 [of img] uint8_range_image [OF assms] third fourth
    by blast
qed

theorem C8_metric_inputs_upper_half_witness:
  "list_all (\<lambda>v. - 1 \<le> v \<and> v \<le> 1) (data (NdArray [3] [- 1, 0, 1 :: real]))
   \<and> list_all (\<lambda>p. 127 \<le> unat p \<and> unat p \<le> 255)
        (data (to_uint8 (elementwise (\<lambda>v. 0.5 * v + 0.5) (NdArray [3] [- 1, 0, 1]))))
   \<and> data (to_uint8 (elementwise (\<lambda>v. 0.5 * v + 0.5) (NdArray [3] [- 1, 0, 1]))) =
        [127, 191, 255]"
proof -
  have h: "list_all (\<lambda>v. - 1 \<le> v \<and> v \<le> 1) (data (NdArray [3] [- 1, 0, 1 :: real]))"
    by simp
  have v: "data (to_uint8 (elementwise (\<lambda>v. 0.5 * v + 0.5) (NdArray [3] [- 1, 0, 1]))) =
        [127, 191, 255]"
    by (simp add: to_uint8_def elementwise_def astype_uint8_def)
  from C8_metric_inputs_upper_half [OF h] h v show ?thesis
    by blast
qed

text \<open>
  Claim C9. The last layer of the generator has a tanh activation, so every entry
  of every image it produces lies in \<open>[-1, 1]\<close>, and the rescaling \<open>0.5 x + 0.5\<close> that
  \<^verbatim>\<open>test_images\<close> and \<^verbatim>\<open>sample_images_new\<close> apply before plotting takes the generated
  images into \<open>[0, 1]\<close>. When the batch can be plotted, the figure each of the two
  methods saves holds generated images with entries in \<open>[0, 1]\<close>; when it cannot, the
  method raises and saves no figure.
\<close>

theorem C9_generated_pixels_bounded:
  "(\<exists>u. outputs (build_generator init) = Conv2D (channels init) 9 1 (Some tanh_act) u)
   \<and> list_all (\<lambda>v. - 1 \<le> v \<and> v \<le> 1) (eval_tensor W inp (outputs (build_generator init)))
   \<and> list_all (\<lambda>img. list_all (\<lambda>v. - 1 \<le> v \<and> v \<le> 1) (data img))
        (fst (generator_predict init x s))
   \<and> list_all (\<lambda>img. list_all (\<lambda>v. 0 \<le> v \<and> v \<le> 1) (data img))
        (rescale (fst (generator_predict init x s)))
   \<and> (case load_data world (loads s) batch_size None (Some True) of
        (t_hr, t_lr) \<Rightarrow>
          if drawable (t_hr, t_lr)
          then \<exists>lr fake. SaveFig ''./result.png'' [lr, fake]
                            \<in> set (log (final_state (test_images world init batch_size s)))
                 \<and> list_all (\<lambda>img. list_all (\<lambda>v. 0 \<le> v \<and> v \<le> 1) (data img)) fake
          else raised (test_images world init batch_size s) \<noteq> None)
   \<and> (case load_data world (loads s) 1 (Some True) (Some True) of
        (s_hr, s_lr) \<Rightarrow>
          if drawable (s_hr, s_lr)
          then \<exists>s' fake hr lr. sample_images_new world init epoch s = Inr s'
                 \<and> last (log s') = SaveFig (''images/'' @ str epoch @ ''.png'') [fake, hr, lr]
                 \<and> list_all (\<lambda>img. list_all (\<lambda>v. 0 \<le> v \<and> v \<le> 1) (data img)) fake
          else raised (sample_images_new world init epoch s) \<noteq> None)"
proof -
  have gen: "list_all (\<lambda>img. list_all (\<lambda>v. - 1 \<le> v \<and> v \<le> 1) (data img))
        (map (forward (generator init) Wg) xs)" for Wg xs
    unfolding build_generator_init by (rule forward_generator_range)
  have shown: "list_all (\<lambda>img. list_all (\<lambda>v. 0 \<le> v \<and> v \<le> 1) (data img))
        (rescale (map (forward (generator init) Wg) xs))" for Wg xs
    using gen by (rule rescale_range)
  have final: "\<exists>u. outputs (build_generator init) = Conv2D (channels init) 9 1 (Some tanh_act) u"
    unfolding build_generator_outputs by blast
  have pred: "fst (generator_predict init x s) = map (forward (generator init) (net_weights s Generator)) x"
    by (simp add: generator_predict_def)
  obtain t_hr t_lr where t: "load_data world (loads s) batch_size None (Some True) = (t_hr, t_lr)"
    by (cases "load_data world (loads s) batch_size None (Some True)")
  obtain s_hr s_lr where sm: "load_data world (loads s) 1 (Some True) (Some True) = (s_hr, s_lr)"
    by (cases "load_data world (loads s) 1 (Some True) (Some True)")
  have test: "if drawable (t_hr, t_lr)
          then \<exists>lr fake. SaveFig ''./result.png'' [lr, fake]
                            \<in> set (log (final_state (test_images world init batch_size s)))
                 \<and> list_all (\<lambda>img. list_all (\<lambda>v. 0 \<le> v \<and> v \<le> 1) (data img)) fake
          else raised (test_images world init batch_size s) \<noteq> None"
  proof (cases "drawable (t_hr, t_lr)")
    case True
    have "SaveFig ''./result.png''
          [rescale t_lr,
           rescale (map (forward (generator init) (read_weights world ''./saved_model/2000.h5'')) t_lr)]
        \<in> set (log (final_state (test_images world init batch_size s)))"
      unfolding test_images_returns(6) [where self = init, OF t True refl refl refl] by simp
    then show ?thesis
      using True shown [of "read_weights world ''./saved_model/2000.h5''" t_lr] by auto
  next
    case False
    then show ?thesis
      using test_images_raises(1) [where self = init, OF t False refl] by simp
  qed
  note sc = sample_images_new_cases [OF sm refl, of init epoch]
  have sample: "if drawable (s_hr, s_lr)
          then \<exists>s' fake hr lr. sample_images_new world init epoch s = Inr s'
                 \<and> last (log s') = SaveFig (''images/'' @ str epoch @ ''.png'') [fake, hr, lr]
                 \<and> list_all (\<lambda>img. list_all (\<lambda>v. 0 \<le> v \<and> v \<le> 1) (data img)) fake
          else raised (sample_images_new world init epoch s) \<noteq> None"
  proof (cases "drawable (s_hr, s_lr)")
    case True
    then have "raised (sample_images_new world init epoch s) = None"
      using sc(1) by simp
    then have r: "sample_images_new world init epoch s =
        Inr (final_state (sample_images_new world init epoch s))"
      by (rule raised_None)
    have "last (log (final_state (sample_images_new world init epoch s))) =
      SaveFig (''images/'' @ str epoch @ ''.png'')
        [rescale (map (forward (generator init) (net_weights s Generator)) s_lr),
         rescale s_hr, rescale s_lr]"
      unfolding sc(2) using True by simp
    with r True shown [of "net_weights s Generator" s_lr] show ?thesis by auto
  next
    case False
    then show ?thesis using sc(1) by simp
  qed
  show ?thesis
    unfolding t sm prod.case
    using final eval_generator_range [of W inp init] gen [of "net_weights s Generator" x]
      shown [of "net_weights s Generator" x] test sample
    unfolding pred by blast
qed


section \<open>Compilation, training steps and the training loop\<close>

lemma combined_init:
  "combined init =
     CModel [CInput (lr_shape init), CInput (hr_shape init)]
       [Apply Discriminator (Apply Generator (CInput (lr_shape init))),
        Apply Vgg (Apply Generator (CInput (lr_shape init)))]"
  by (simp add: init_def Let_def srgan_attrs.defs srgan.defs)

lemma keras_init_trainable:
  "trainable (keras init) = (\<lambda>m. m \<noteq> Vgg \<and> m \<noteq> Discriminator)"
  by (auto simp add: init_def Let_def srgan_attrs.defs srgan.defs compile_model_def
      set_trainable_def fun_eq_iff)

lemma keras_init_compiled:
  "compiled (keras init) Vgg =
     Some \<lparr>loss = [mse], loss_weights = None, optimizer = Adam (2 / 10000) (5 / 10),
           metrics = [''accuracy''], collected_trainable_weights = []\<rparr>"
  "compiled (keras init) Discriminator =
     Some \<lparr>loss = [mse], loss_weights = None, optimizer = Adam (2 / 10000) (5 / 10),
           metrics = [''accuracy''], collected_trainable_weights = [Discriminator]\<rparr>"
  "compiled (keras init) Generator = None"
  "compiled (keras init) Combined =
     Some \<lparr>loss = [binary_crossentropy, mse], loss_weights = Some [1 / 1000, 1],
           optimizer = Adam (2 / 10000) (5 / 10), metrics = [],
           collected_trainable_weights = [Generator]\<rparr>"
  by (simp_all add: init_def Let_def srgan_attrs.defs srgan.defs compile_model_def
      set_trainable_def trainable_weights_def model_layers_def)

text \<open>
  Claim C3. The combined model has the outputs \<open>[validity, fake_features]\<close>, in this
  order: the discriminator applied to the generated image and the VGG features of
  the generated image. It is compiled with the losses binary cross-entropy and
  mean squared error and the weights \<open>1e-3\<close> and \<open>1\<close>, in the same order, so its
  objective is \<open>1e-3\<close> times the cross-entropy on the validity output plus \<open>1\<close> times
  the mean squared error on the feature maps.
\<close>

theorem C3_combined_objective:
  "coutputs (combined init) =
     [Apply Discriminator (Apply Generator (CInput (lr_shape init))),
      Apply Vgg (Apply Generator (CInput (lr_shape init)))]
   \<and> (\<exists>cfg. compiled (keras init) Combined = Some cfg
          \<and> loss cfg = [binary_crossentropy, mse]
          \<and> loss_weights cfg = Some [1 / 1000, 1]
          \<and> total_loss cfg L [valid, image_features] [validity, fake_features] =
              1 / 1000 * L binary_crossentropy valid validity
              + 1 * L mse image_features fake_features)"
  by (simp add: combined_init keras_init_compiled total_loss_def)


lemma if_fun_upd: "(\<lambda>c. if c = a then f c else g c) = g(a := f a)"
  by (simp add: fun_eq_iff)

lemma train_on_batch_discriminator:
  "train_on_batch world init Discriminator x y s =
     Inr (snd (fit world Discriminator (net_weights s) x y),
          (emit (TrainOnBatch Discriminator x y) s)
            \<lparr>net_weights := (net_weights s)
               (Discriminator := fst (fit world Discriminator (net_weights s) x y) Discriminator)\<rparr>)"
  by (simp add: train_on_batch_def keras_init_compiled split_def Let_def if_fun_upd)

lemma train_on_batch_combined:
  "train_on_batch world init Combined x y s =
     Inr (snd (fit world Combined (net_weights s) x y),
          (emit (TrainOnBatch Combined x y) s)
            \<lparr>net_weights := (net_weights s)
               (Generator := fst (fit world Combined (net_weights s) x y) Generator)\<rparr>)"
  by (simp add: train_on_batch_def keras_init_compiled split_def Let_def if_fun_upd)

lemma train_on_batch_generator:
  "train_on_batch world init Generator x y s = Inl (RuntimeError, s)"
  by (simp add: train_on_batch_def keras_init_compiled)


lemma train_discriminator_init:
  assumes "load_data world (loads s) batch_size None None = (imgs_hr, imgs_lr)"
    and "fake_hr = map (forward (generator init) (net_weights s Generator)) imgs_lr"
    and "valid = np_ones (batch_size # tuple_list (disc_patch init))"
    and "fake = np_zeros (batch_size # tuple_list (disc_patch init))"
    and "r1 = fit world Discriminator (net_weights s) [imgs_hr] [valid]"
    and "w1 = (net_weights s)(Discriminator := fst r1 Discriminator)"
    and "r2 = fit world Discriminator w1 [fake_hr] [fake]"
  shows "\<exists>s'. train_discriminator world init batch_size s = Inr s'
      \<and> log s' = log s @ [LoadData batch_size None None, Predict Generator imgs_lr,
                           TrainOnBatch Discriminator [imgs_hr] [valid],
                           TrainOnBatch Discriminator [fake_hr] [fake]]
      \<and> loads s' = Suc (loads s)
      \<and> net_weights s' = w1(Discriminator := fst r2 Discriminator)
      \<and> d_loss s' = map ((*) 0.5) (np_add (snd r1) (snd r2))
      \<and> sample_interval s' = sample_interval s
      \<and> g_loss s' = g_loss s"
  using assms
  by (simp add: train_discriminator_def train_on_batch_discriminator data_loader_load_data_def
      generator_predict_def emit_def Let_def)

lemma train_generator_init:
  assumes "load_data world (loads s) batch_size None None = (imgs_hr, imgs_lr)"
    and "valid = np_ones (batch_size # tuple_list (disc_patch init))"
    and "image_features = vgg_forward world (net_weights s Vgg) imgs_hr"
    and "r = fit world Combined (net_weights s) [imgs_lr, imgs_hr] [valid, image_features]"
  shows "\<exists>s'. train_generator world init batch_size s = Inr s'
      \<and> log s' = log s @ [LoadData batch_size None None, Predict Vgg imgs_hr,
                           TrainOnBatch Combined [imgs_lr, imgs_hr] [valid, image_features]]
      \<and> loads s' = Suc (loads s)
      \<and> net_weights s' = (net_weights s)(Generator := fst r Generator)
      \<and> g_loss s' = snd r
      \<and> sample_interval s' = sample_interval s
      \<and> d_loss s' = d_loss s"
  using assms
  by (simp add: train_generator_def train_on_batch_combined data_loader_load_data_def
      vgg_predict_def emit_def Let_def)


lemma end_of_epoch_cases:
  assumes ld: "load_data world (loads s) 1 (Some True) (Some True) = (imgs_hr, imgs_lr)"
    and res: "res = end_of_epoch world self epoch s"
    and sampled: "sampled = (sample_interval s \<noteq> 0 \<and> epoch mod sample_interval s = 0)"
    and ok: "ok = (sampled \<longrightarrow> drawable (imgs_hr, imgs_lr))"
  shows "raised res =
           (if sample_interval s = 0 then Some ZeroDivisionError
            else if ok then None
            else Some (if imgs_hr = [] then ValueError else IndexError))
    \<and> (\<exists>rest. log (final_state res) = log s @ Print epoch # rest
           \<and> \<not> list_ex is_train_on_batch rest)
    \<and> saved_figures (log (final_state res)) =
          saved_figures (log s) @
            (if sampled \<and> drawable (imgs_hr, imgs_lr)
             then [''images/'' @ str epoch @ ''.png''] else [])
    \<and> saved_weights (log (final_state res)) =
          saved_weights (log s) @
            (if sample_interval s \<noteq> 0 \<and> ok \<and> epoch mod 500 = 0 \<and> epoch > 1
             then [''./saved_model/'' @ str epoch @ ''.h5''] else [])
    \<and> net_weights (final_state res) = net_weights s
    \<and> sample_interval (final_state res) = sample_interval s
    \<and> d_loss (final_state res) = d_loss s"
proof -
  define s1 where "s1 = emit (Print epoch) s"
  have s1: "log s1 = log s @ [Print epoch]" "net_weights s1 = net_weights s"
    "loads s1 = loads s" "sample_interval s1 = sample_interval s" "d_loss s1 = d_loss s"
    "io_state.more s1 = io_state.more s"
    by (simp_all add: s1_def emit_def)
  have reading: "saved_figures [Print epoch] = []" "saved_weights [Print epoch] = []"
    "saved_figures [SaveWeights p] = []" "saved_weights [SaveWeights p] = [p]"
    "saved_figures [MakeDirs ''images/'', LoadData 1 (Some True) (Some True),
                    Predict Generator imgs_lr] = []"
    "saved_weights [MakeDirs ''images/'', LoadData 1 (Some True) (Some True),
                    Predict Generator imgs_lr] = []"
    "saved_figures [SaveFig q imgs] = [q]" "saved_weights [SaveFig q imgs] = []"
    for p q imgs
    by (simp_all add: saved_figures_def saved_weights_def)
  have tr: "\<not> is_train_on_batch (MakeDirs d)" "\<not> is_train_on_batch (LoadData n a b)"
    "\<not> is_train_on_batch (Predict m x)" "\<not> is_train_on_batch (SaveFig q imgs)"
    "\<not> is_train_on_batch (SaveWeights p)" for d n a b m x q imgs p
    by (simp_all add: is_train_on_batch_def)
  have step: "end_of_epoch world self epoch s =
      (if sample_interval s = 0 then Inl (ZeroDivisionError, s1)
       else (case (if epoch mod sample_interval s = 0
                   then sample_images_new world self epoch s1 else Inr s1) of
               Inl e \<Rightarrow> Inl e
             | Inr s2 \<Rightarrow>
                 Inr (if epoch mod 500 = 0 \<and> epoch > 1
                      then emit (SaveWeights (''./saved_model/'' @ str epoch @ ''.h5'')) s2
                      else s2)))"
    by (simp add: end_of_epoch_def Let_def s1_def emit_def)
  consider (zero) "sample_interval s = 0"
    | (skip) "sample_interval s \<noteq> 0" "epoch mod sample_interval s \<noteq> 0"
    | (drawn) "sample_interval s \<noteq> 0" "epoch mod sample_interval s = 0" "drawable (imgs_hr, imgs_lr)"
    | (failed) "sample_interval s \<noteq> 0" "epoch mod sample_interval s = 0" "\<not> drawable (imgs_hr, imgs_lr)"
    by atomize_elim auto
  then show ?thesis
  proof cases
    case zero
    then have "res = Inl (ZeroDivisionError, s1)"
      by (simp add: res step)
    then show ?thesis
      using zero by (simp add: result_simps s1 sampled ok reading_append reading
          saved_figures_def saved_weights_def)
  next
    case skip
    then have r: "res = Inr (if epoch mod 500 = 0 \<and> epoch > 1
                      then emit (SaveWeights (''./saved_model/'' @ str epoch @ ''.h5'')) s1
                      else s1)"
      by (simp add: res step)
    show ?thesis
      unfolding r using skip
      by (simp add: result_simps s1 sampled ok reading_append reading emit_def tr
          saved_figures_def saved_weights_def)
  next
    case drawn
    have ld1: "load_data world (loads s1) 1 (Some True) (Some True) = (imgs_hr, imgs_lr)"
      using ld by (simp add: s1)
    note sc = sample_images_new_cases [OF ld1 refl, of self epoch]
    define s2 where "s2 = final_state (sample_images_new world self epoch s1)"
    from sc(1) drawn have "raised (sample_images_new world self epoch s1) = None" by simp
    then have smp: "sample_images_new world self epoch s1 = Inr s2"
      unfolding s2_def by (rule raised_None)
    have s2: "log s2 = log s @ Print epoch #
                [MakeDirs ''images/'', LoadData 1 (Some True) (Some True),
                 Predict Generator imgs_lr,
                 SaveFig (''images/'' @ str epoch @ ''.png'')
                        [rescale (map (forward (generator self) (net_weights s1 Generator)) imgs_lr),
                         rescale imgs_hr, rescale imgs_lr]]"
      "net_weights s2 = net_weights s" "io_state.more s2 = io_state.more s"
      unfolding s2_def using sc(2,3,5) drawn by (simp_all add: s1)
    have more: "sample_interval s2 = sample_interval s" "d_loss s2 = d_loss s"
    proof -
      have "train_state.sample_interval s2 = train_state.sample_interval s
          \<and> train_state.d_loss s2 = train_state.d_loss s"
        using s2(3) by (cases s2, cases s) simp
      then show "sample_interval s2 = sample_interval s" "d_loss s2 = d_loss s" by simp_all
    qed
    have r: "res = Inr (if epoch mod 500 = 0 \<and> epoch > 1
                      then emit (SaveWeights (''./saved_model/'' @ str epoch @ ''.h5'')) s2
                      else s2)"
      using drawn by (simp add: res step smp)
    show ?thesis
      unfolding r using drawn
      by (simp add: result_simps s2 more sampled ok reading_append reading emit_def tr
          saved_figures_def saved_weights_def)
  next
    case failed
    have ld1: "load_data world (loads s1) 1 (Some True) (Some True) = (imgs_hr, imgs_lr)"
      using ld by (simp add: s1)
    note sc = sample_images_new_cases [OF ld1 refl, of self epoch]
    define s2 where "s2 = final_state (sample_images_new world self epoch s1)"
    from sc(1) failed have "raised (sample_images_new world self epoch s1) =
        Some (if imgs_hr = [] then ValueError else IndexError)" by simp
    then have smp: "sample_images_new world self epoch s1 =
        Inl (if imgs_hr = [] then ValueError else IndexError, s2)"
      unfolding s2_def by (rule raised_Some)
    have s2: "log s2 = log s @ Print epoch #
                [MakeDirs ''images/'', LoadData 1 (Some True) (Some True),
                 Predict Generator imgs_lr]"
      "net_weights s2 = net_weights s" "io_state.more s2 = io_state.more s"
      unfolding s2_def using sc(2,3,5) failed by (simp_all add: s1)
    have more: "sample_interval s2 = sample_interval s" "d_loss s2 = d_loss s"
    proof -
      have "train_state.sample_interval s2 = train_state.sample_interval s
          \<and> train_state.d_loss s2 = train_state.d_loss s"
        using s2(3) by (cases s2, cases s) simp
      then show "sample_interval s2 = sample_interval s" "d_loss s2 = d_loss s" by simp_all
    qed
    have r: "res = Inl (if imgs_hr = [] then ValueError else IndexError, s2)"
      using failed by (simp add: res step smp)
    show ?thesis
      unfolding r using failed
      by (simp add: result_simps s2 more sampled ok reading_append reading tr
          saved_figures_def saved_weights_def)
  qed
qed

lemma train_epoch_adjust:
  "train_epoch world self batch_size epoch s =
     (case train_discriminator world self batch_size
             (s\<lparr>sample_interval :=
                  if epoch > 100 then 50 else if epoch > 30 then 10 else sample_interval s\<rparr>) of
        Inl e \<Rightarrow> Inl e
      | Inr s \<Rightarrow>
          (case train_generator world self batch_size s of
             Inl e \<Rightarrow> Inl e
           | Inr s \<Rightarrow> end_of_epoch world self epoch s))"
  by (simp add: train_epoch_def Let_def)

lemma train_epoch_init:
  assumes ld1: "load_data world (loads s) batch_size None None = (imgs_hr, imgs_lr)"
    and ld2: "load_data world (Suc (loads s)) batch_size None None = (imgs_hr2, imgs_lr2)"
    and ld3: "load_data world (Suc (Suc (loads s))) 1 (Some True) (Some True) = (s_hr, s_lr)"
    and fake_hr: "fake_hr = map (forward (generator init) (net_weights s Generator)) imgs_lr"
    and valid: "valid = np_ones (batch_size # tuple_list (disc_patch init))"
    and fake: "fake = np_zeros (batch_size # tuple_list (disc_patch init))"
    and r1: "r1 = fit world Discriminator (net_weights s) [imgs_hr] [valid]"
    and w1: "w1 = (net_weights s)(Discriminator := fst r1 Discriminator)"
    and r2: "r2 = fit world Discriminator w1 [fake_hr] [fake]"
    and w2: "w2 = w1(Discriminator := fst r2 Discriminator)"
    and feats: "image_features = vgg_forward world (w2 Vgg) imgs_hr2"
    and r3: "r3 = fit world Combined w2 [imgs_lr2, imgs_hr2] [valid, image_features]"
    and I: "I = (if epoch > 100 then 50 else if epoch > 30 then 10 else sample_interval s)"
    and sampled: "sampled = (I \<noteq> 0 \<and> epoch mod I = 0)"
    and ok: "ok = (sampled \<longrightarrow> drawable (s_hr, s_lr))"
    and res: "res = train_epoch world init batch_size epoch s"
  shows "raised res =
           (if I = 0 then Some ZeroDivisionError
            else if ok then None
            else Some (if s_hr = [] then ValueError else IndexError))
    \<and> (\<exists>rest. log (final_state res) =
            log s @ [LoadData batch_size None None, Predict Generator imgs_lr,
                     TrainOnBatch Discriminator [imgs_hr] [valid],
                     TrainOnBatch Discriminator [fake_hr] [fake],
                     LoadData batch_size None None, Predict Vgg imgs_hr2,
                     TrainOnBatch Combined [imgs_lr2, imgs_hr2] [valid, image_features],
                     Print epoch] @ rest
          \<and> \<not> list_ex is_train_on_batch rest)
    \<and> d_loss (final_state res) = map ((*) 0.5) (np_add (snd r1) (snd r2))
    \<and> net_weights (final_state res) = w2(Generator := fst r3 Generator)
    \<and> sample_interval (final_state res) = I
    \<and> saved_figures (log (final_state res)) =
          saved_figures (log s) @
            (if sampled \<and> drawable (s_hr, s_lr)
             then [''images/'' @ str epoch @ ''.png''] else [])
    \<and> saved_weights (log (final_state res)) =
          saved_weights (log s) @
            (if I \<noteq> 0 \<and> ok \<and> epoch mod 500 = 0 \<and> epoch > 1
             then [''./saved_model/'' @ str epoch @ ''.h5''] else [])"
proof -
  let ?s0 = "s\<lparr>sample_interval := I\<rparr>"
  have ld1': "load_data world (loads ?s0) batch_size None None = (imgs_hr, imgs_lr)"
    using ld1 by simp
  obtain s1 where s1: "train_discriminator world init batch_size ?s0 = Inr s1"
    and log1: "log s1 = log s @ [LoadData batch_size None None, Predict Generator imgs_lr,
                           TrainOnBatch Discriminator [imgs_hr] [valid],
                           TrainOnBatch Discriminator [fake_hr] [fake]]"
    and loads1: "loads s1 = Suc (loads s)"
    and nw1: "net_weights s1 = w2"
    and dl1: "d_loss s1 = map ((*) 0.5) (np_add (snd r1) (snd r2))"
    and si1: "sample_interval s1 = I"
    using train_discriminator_init [OF ld1' refl refl refl refl refl refl]
    by (auto simp add: fake_hr valid fake r1 w1 r2 w2)
  have ld2': "load_data world (loads s1) batch_size None None = (imgs_hr2, imgs_lr2)"
    using ld2 loads1 by simp
  obtain s2 where s2: "train_generator world init batch_size s1 = Inr s2"
    and log2: "log s2 = log s1 @ [LoadData batch_size None None, Predict Vgg imgs_hr2,
                           TrainOnBatch Combined [imgs_lr2, imgs_hr2] [valid, image_features]]"
    and loads2: "loads s2 = Suc (loads s1)"
    and nw2: "net_weights s2 = w2(Generator := fst r3 Generator)"
    and si2: "sample_interval s2 = I"
    and dl2: "d_loss s2 = d_loss s1"
    using train_generator_init [OF ld2' refl refl refl]
    by (auto simp add: valid feats r3 nw1 si1)
  have res': "res = end_of_epoch world init epoch s2"
    by (simp add: res train_epoch_adjust I [symmetric] s1 s2)
  have log2': "log s2 = log s @ [LoadData batch_size None None, Predict Generator imgs_lr,
                     TrainOnBatch Discriminator [imgs_hr] [valid],
                     TrainOnBatch Discriminator [fake_hr] [fake],
                     LoadData batch_size None None, Predict Vgg imgs_hr2,
                     TrainOnBatch Combined [imgs_lr2, imgs_hr2] [valid, image_features]]"
    by (simp add: log2 log1)
  have nofig: "saved_figures (log s2) = saved_figures (log s)"
    "saved_weights (log s2) = saved_weights (log s)"
    by (simp_all add: log2' reading_append) (simp_all add: saved_figures_def saved_weights_def)
  have ld3': "load_data world (loads s2) 1 (Some True) (Some True) = (s_hr, s_lr)"
    using ld3 by (simp add: loads2 loads1)
  have sampled': "sampled = (sample_interval s2 \<noteq> 0 \<and> epoch mod sample_interval s2 = 0)"
    by (simp add: sampled si2)
  note eoe = end_of_epoch_cases [OF ld3' res' sampled' ok]
  from eoe obtain rest where rest: "log (final_state res) = log s2 @ Print epoch # rest"
    "\<not> list_ex is_train_on_batch rest"
    by blast
  have "log (final_state res) =
            log s @ [LoadData batch_size None None, Predict Generator imgs_lr,
                     TrainOnBatch Discriminator [imgs_hr] [valid],
                     TrainOnBatch Discriminator [fake_hr] [fake],
                     LoadData batch_size None None, Predict Vgg imgs_hr2,
                     TrainOnBatch Combined [imgs_lr2, imgs_hr2] [valid, image_features],
                     Print epoch] @ rest"
    by (simp add: rest(1) log2')
  with rest(2) have ex: "\<exists>rest. log (final_state res) =
            log s @ [LoadData batch_size None None, Predict Generator imgs_lr,
                     TrainOnBatch Discriminator [imgs_hr] [valid],
                     TrainOnBatch Discriminator [fake_hr] [fake],
                     LoadData batch_size None None, Predict Vgg imgs_hr2,
                     TrainOnBatch Combined [imgs_lr2, imgs_hr2] [valid, image_features],
                     Print epoch] @ rest
          \<and> \<not> list_ex is_train_on_batch rest"
    by blast
  from eoe have other: "raised res =
           (if I = 0 then Some ZeroDivisionError
            else if ok then None
            else Some (if s_hr = [] then ValueError else IndexError))"
    "d_loss (final_state res) = map ((*) 0.5) (np_add (snd r1) (snd r2))"
    "net_weights (final_state res) = w2(Generator := fst r3 Generator)"
    "sample_interval (final_state res) = I"
    "saved_figures (log (final_state res)) =
          saved_figures (log s) @
            (if sampled \<and> drawable (s_hr, s_lr)
             then [''images/'' @ str epoch @ ''.png''] else [])"
    "saved_weights (log (final_state res)) =
          saved_weights (log s) @
            (if I \<noteq> 0 \<and> ok \<and> epoch mod 500 = 0 \<and> epoch > 1
             then [''./saved_model/'' @ str epoch @ ''.h5''] else [])"
    by (simp_all only: si2 nw2 dl2 dl1 nofig)
  from ex other show ?thesis by blast
qed

lemma train_epoch_vgg_frame:
  "net_weights (final_state (train_epoch world init batch_size epoch s)) Vgg = net_weights s Vgg"
proof -
  obtain imgs_hr imgs_lr where ld1: "load_data world (loads s) batch_size None None = (imgs_hr, imgs_lr)"
    by (cases "load_data world (loads s) batch_size None None")
  obtain imgs_hr2 imgs_lr2 where ld2: "load_data world (Suc (loads s)) batch_size None None = (imgs_hr2, imgs_lr2)"
    by (cases "load_data world (Suc (loads s)) batch_size None None")
  obtain s_hr s_lr where ld3: "load_data world (Suc (Suc (loads s))) 1 (Some True) (Some True) = (s_hr, s_lr)"
    by (cases "load_data world (Suc (Suc (loads s))) 1 (Some True) (Some True)")
  from train_epoch_init [OF ld1 ld2 ld3 refl refl refl refl refl refl refl refl refl refl refl refl refl]
  show ?thesis by simp
qed

lemma train_loop_vgg_frame:
  "net_weights (final_state (train_loop world init batch_size es s)) Vgg = net_weights s Vgg"
proof (induction es arbitrary: s)
  case Nil
  show ?case by (simp add: final_state_def)
next
  case (Cons e es)
  show ?case
  proof (cases "train_epoch world init batch_size e s")
    case (Inl x)
    then have "final_state (train_loop world init batch_size (e # es) s) =
        final_state (train_epoch world init batch_size e s)"
      by simp
    then show ?thesis by (simp only: train_epoch_vgg_frame)
  next
    case (Inr s')
    then have s': "s' = final_state (train_epoch world init batch_size e s)"
      by (simp add: final_state_def)
    have "net_weights (final_state (train_loop world init batch_size (e # es) s)) Vgg =
        net_weights s' Vgg"
      using Inr by (simp add: Cons.IH)
    then show ?thesis by (simp only: s' train_epoch_vgg_frame)
  qed
qed

lemma train_epoch_schedule:
  assumes arg: "arg \<noteq> 0" and inv: "epoch \<le> 30 \<Longrightarrow> sample_interval s = arg"
    and draw: "drawable (load_data world (Suc (Suc (loads s))) 1 (Some True) (Some True))"
  shows "\<exists>s'. train_epoch world init batch_size epoch s = Inr s'
      \<and> saved_figures (log s') =
          saved_figures (log s) @
            (if epoch mod spec_interval arg epoch = 0 then [''images/'' @ str epoch @ ''.png''] else [])
      \<and> saved_weights (log s') =
          saved_weights (log s) @
            (if epoch mod 500 = 0 \<and> epoch > 1 then [''./saved_model/'' @ str epoch @ ''.h5''] else [])
      \<and> sample_interval s' = spec_interval arg epoch"
proof -
  obtain imgs_hr imgs_lr where ld1: "load_data world (loads s) batch_size None None = (imgs_hr, imgs_lr)"
    by (cases "load_data world (loads s) batch_size None None")
  obtain imgs_hr2 imgs_lr2 where ld2: "load_data world (Suc (loads s)) batch_size None None = (imgs_hr2, imgs_lr2)"
    by (cases "load_data world (Suc (loads s)) batch_size None None")
  obtain s_hr s_lr where ld3: "load_data world (Suc (Suc (loads s))) 1 (Some True) (Some True) = (s_hr, s_lr)"
    by (cases "load_data world (Suc (Suc (loads s))) 1 (Some True) (Some True)")
  let ?I = "if epoch > 100 then 50 else if epoch > 30 then 10 else sample_interval s"
  let ?res = "train_epoch world init batch_size epoch s"
  have I: "?I = spec_interval arg epoch"
    using inv by (auto simp add: spec_interval_def)
  have nz: "?I \<noteq> 0"
    using arg inv by auto
  have d: "drawable (s_hr, s_lr)"
    using draw unfolding ld3 .
  note ep = train_epoch_init [OF ld1 ld2 ld3 refl refl refl refl refl refl refl refl refl refl
      refl refl refl, of epoch]
  from ep nz d have "raised ?res = None" by simp
  then have "?res = Inr (final_state ?res)" by (rule raised_None)
  moreover from ep nz d have "saved_figures (log (final_state ?res)) =
          saved_figures (log s) @
            (if epoch mod ?I = 0 then [''images/'' @ str epoch @ ''.png''] else [])"
    by simp
  moreover from ep nz d have "saved_weights (log (final_state ?res)) =
          saved_weights (log s) @
            (if epoch mod 500 = 0 \<and> epoch > 1 then [''./saved_model/'' @ str epoch @ ''.h5''] else [])"
    by simp
  moreover from ep have "sample_interval (final_state ?res) = ?I" by simp
  ultimately show ?thesis
    unfolding I by blast
qed

lemma train_loop_schedule:
  assumes arg: "arg \<noteq> 0" and inv: "k \<le> 30 \<Longrightarrow> sample_interval s = arg"
    and draw: "\<And>j. drawable (load_data world j 1 (Some True) (Some True))"
  shows "\<exists>s'. train_loop world init batch_size (map int [k..<n]) s = Inr s'
      \<and> saved_figures (log s') =
          saved_figures (log s) @
            map (\<lambda>e. ''images/'' @ str e @ ''.png'')
              (filter (\<lambda>e. e mod spec_interval arg e = 0) (map int [k..<n]))
      \<and> saved_weights (log s') =
          saved_weights (log s) @
            map (\<lambda>e. ''./saved_model/'' @ str e @ ''.h5'')
              (filter (\<lambda>e. e mod 500 = 0 \<and> e > 1) (map int [k..<n]))"
  using inv
proof (induction "n - k" arbitrary: k s)
  case 0
  then have "[k..<n] = []" by simp
  then show ?case by (simp only: list.map filter.simps train_loop.simps append_Nil2) blast
next
  case (Suc d)
  then have kn: "k < n" by simp
  then have upt: "[k..<n] = k # [Suc k..<n]" by (rule upt_conv_Cons)
  have inv': "int k \<le> 30 \<Longrightarrow> sample_interval s = arg"
    using Suc.prems by simp
  from train_epoch_schedule [OF arg inv' draw, where batch_size = batch_size]
  obtain s1 where s1: "train_epoch world init batch_size (int k) s = Inr s1"
    and figs1: "saved_figures (log s1) =
          saved_figures (log s) @
            (if int k mod spec_interval arg (int k) = 0 then [''images/'' @ str (int k) @ ''.png''] else [])"
    and wts1: "saved_weights (log s1) =
          saved_weights (log s) @
            (if int k mod 500 = 0 \<and> int k > 1 then [''./saved_model/'' @ str (int k) @ ''.h5''] else [])"
    and si1: "sample_interval s1 = spec_interval arg (int k)"
    by blast
  have d: "d = n - Suc k" using Suc.hyps(2) by simp
  have inv1: "Suc k \<le> 30 \<Longrightarrow> sample_interval s1 = arg"
    by (simp add: si1 spec_interval_def)
  from Suc.hyps(1) [OF d inv1]
  obtain s' where s': "train_loop world init batch_size (map int [Suc k..<n]) s1 = Inr s'"
    and figs: "saved_figures (log s') =
          saved_figures (log s1) @
            map (\<lambda>e. ''images/'' @ str e @ ''.png'')
              (filter (\<lambda>e. e mod spec_interval arg e = 0) (map int [Suc k..<n]))"
    and wts: "saved_weights (log s') =
          saved_weights (log s1) @
            map (\<lambda>e. ''./saved_model/'' @ str e @ ''.h5'')
              (filter (\<lambda>e. e mod 500 = 0 \<and> e > 1) (map int [Suc k..<n]))"
    by blast
  have "train_loop world init batch_size (map int [k..<n]) s = Inr s'"
    unfolding upt by (simp add: s1 s')
  moreover have "saved_figures (log s') =
          saved_figures (log s) @
            map (\<lambda>e. ''images/'' @ str e @ ''.png'')
              (filter (\<lambda>e. e mod spec_interval arg e = 0) (map int [k..<n]))"
    unfolding upt figs figs1 by simp
  moreover have "saved_weights (log s') =
          saved_weights (log s) @
            map (\<lambda>e. ''./saved_model/'' @ str e @ ''.h5'')
              (filter (\<lambda>e. e mod 500 = 0 \<and> e > 1) (map int [k..<n]))"
    unfolding upt wts wts1 by simp
  ultimately show ?case by blast
qed

lemma d_loss_average:
  "map ((*) 0.5) (np_add xs ys) = map (\<lambda>(a, b). 0.5 * (a + b)) (zip xs ys)"
  by (simp add: np_add_def split_def)

lemma targets_init:
  "np_ones (batch_size # tuple_list (disc_patch init)) =
     replicate batch_size (NdArray [16, 16, 1] (replicate 256 1))"
  "np_zeros (batch_size # tuple_list (disc_patch init)) =
     replicate batch_size (NdArray [16, 16, 1] (replicate 256 0))"
  by (simp_all add: np_ones_def np_zeros_def np_full_samples tuple_list_def init_simps)

text \<open>
  Claim C2. In every epoch of \<^verbatim>\<open>train\<close> the steps come in this order: a batch is
  loaded; the generator predicts fake high-resolution images from its low-resolution
  half; the discriminator is trained once on the real images against all ones and
  once on the fake images against all zeros, each target one \<open>(16, 16, 1)\<close> patch per
  sample, and \<^verbatim>\<open>d_loss\<close> is the elementwise \<open>0.5 * (d_loss_real + d_loss_fake)\<close>; a
  second batch is loaded; the VGG features of its real images are computed; the
  combined model is trained on it against all ones and these features. Nothing
  after that in the epoch is a training step. This holds whether the epoch
  returns or raises at its end, and the loop runs the epochs one after the other.
\<close>

theorem C2_epoch_order:
  "(case load_data world (loads s) batch_size None None of
      (imgs_hr, imgs_lr) \<Rightarrow>
    case load_data world (Suc (loads s)) batch_size None None of
      (imgs_hr2, imgs_lr2) \<Rightarrow>
        (let fake_hr = map (forward (generator init) (net_weights s Generator)) imgs_lr;
             valid = np_ones (batch_size # tuple_list (disc_patch init));
             fake = np_zeros (batch_size # tuple_list (disc_patch init));
             r1 = fit world Discriminator (net_weights s) [imgs_hr] [valid];
             w1 = (net_weights s)(Discriminator := fst r1 Discriminator);
             r2 = fit world Discriminator w1 [fake_hr] [fake];
             w2 = w1(Discriminator := fst r2 Discriminator);
             image_features = vgg_forward world (w2 Vgg) imgs_hr2;
             s' = final_state (train_epoch world init batch_size epoch s)
         in (\<exists>rest. log s' =
                 log s @ [LoadData batch_size None None, Predict Generator imgs_lr,
                          TrainOnBatch Discriminator [imgs_hr] [valid],
                          TrainOnBatch Discriminator [fake_hr] [fake],
                          LoadData batch_size None None, Predict Vgg imgs_hr2,
                          TrainOnBatch Combined [imgs_lr2, imgs_hr2] [valid, image_features],
                          Print epoch] @ rest
               \<and> \<not> list_ex is_train_on_batch rest)
            \<and> d_loss s' = map (\<lambda>(a, b). 0.5 * (a + b)) (zip (snd r1) (snd r2))
            \<and> valid = replicate batch_size (NdArray [16, 16, 1] (replicate 256 1))
            \<and> fake = replicate batch_size (NdArray [16, 16, 1] (replicate 256 0))))
   \<and> train_loop world init batch_size (epoch # later) s =
        (case train_epoch world init batch_size epoch s of
           Inl e \<Rightarrow> Inl e
         | Inr s' \<Rightarrow> train_loop world init batch_size later s')"
proof -
  obtain imgs_hr imgs_lr where ld1: "load_data world (loads s) batch_size None None = (imgs_hr, imgs_lr)"
    by (cases "load_data world (loads s) batch_size None None")
  obtain imgs_hr2 imgs_lr2 where ld2: "load_data world (Suc (loads s)) batch_size None None = (imgs_hr2, imgs_lr2)"
    by (cases "load_data world (Suc (loads s)) batch_size None None")
  obtain s_hr s_lr where ld3: "load_data world (Suc (Suc (loads s))) 1 (Some True) (Some True) = (s_hr, s_lr)"
    by (cases "load_data world (Suc (Suc (loads s))) 1 (Some True) (Some True)")
  note ep = train_epoch_init [OF ld1 ld2 ld3 refl refl refl refl refl refl refl refl refl refl
      refl refl refl, of epoch]
  show ?thesis
    unfolding ld1 ld2 prod.case Let_def
    using ep targets_init [of batch_size]
    by (simp only: d_loss_average train_loop.simps)
qed

text \<open>
  Claim C4. \<^verbatim>\<open>vgg.trainable\<close> is false when the VGG model is compiled, so it has no
  weights to train, and no run of \<^verbatim>\<open>train\<close> changes the VGG weights.
  \<^verbatim>\<open>discriminator.trainable\<close> is set to false after the discriminator was compiled and
  before the combined model is: a training step of the combined model changes the
  generator's weights only and leaves the discriminator's and the VGG's as they
  were, while a training step of the discriminator itself still updates the
  discriminator.
\<close>

theorem C4_frozen_networks:
  "trainable (keras init) Vgg = False
   \<and> trainable (keras init) Discriminator = False
   \<and> (\<exists>cfg. compiled (keras init) Vgg = Some cfg \<and> collected_trainable_weights cfg = [])
   \<and> (\<exists>cfg. compiled (keras init) Discriminator = Some cfg
          \<and> collected_trainable_weights cfg = [Discriminator])
   \<and> (\<exists>cfg. compiled (keras init) Combined = Some cfg
          \<and> collected_trainable_weights cfg = [Generator])
   \<and> (\<exists>l s'. train_on_batch world init Combined x y s = Inr (l, s')
          \<and> net_weights s' Discriminator = net_weights s Discriminator
          \<and> net_weights s' Vgg = net_weights s Vgg
          \<and> net_weights s' Generator = fst (fit world Combined (net_weights s) x y) Generator)
   \<and> (\<exists>l s'. train_on_batch world init Discriminator x y s = Inr (l, s')
          \<and> net_weights s' Vgg = net_weights s Vgg
          \<and> net_weights s' Generator = net_weights s Generator
          \<and> net_weights s' Discriminator =
               fst (fit world Discriminator (net_weights s) x y) Discriminator)
   \<and> net_weights (final_state (train world init epochs batch_size interval s0)) Vgg =
        net_weights s0 Vgg"
proof -
  have "net_weights (final_state (train world init epochs batch_size interval s0)) Vgg =
      net_weights s0 Vgg"
    unfolding train_def
    by (simp only: train_loop_vgg_frame) (simp add: io_state.defs train_state.defs)
  then show ?thesis
    by (simp add: keras_init_trainable keras_init_compiled train_on_batch_combined
        train_on_batch_discriminator)
qed


lemma train_start:
  "net_weights (io_state.extend s (train_state.fields interval [] [])) = net_weights s"
  "loads (io_state.extend s (train_state.fields interval [] [])) = loads s"
  "log (io_state.extend s (train_state.fields interval [] [])) = log s"
  "sample_interval (io_state.extend s (train_state.fields interval [] [])) = interval"
  by (simp_all add: io_state.defs train_state.defs)

lemma train_zero_interval:
  assumes "0 < epochs"
  shows "raised (train world init epochs batch_size 0 s) = Some ZeroDivisionError"
    and "saved_figures (log (final_state (train world init epochs batch_size 0 s))) =
           saved_figures (log s)"
    and "saved_weights (log (final_state (train world init epochs batch_size 0 s))) =
           saved_weights (log s)"
proof -
  let ?s0 = "io_state.extend s (train_state.fields 0 [] [])"
  let ?res = "train_epoch world init batch_size 0 ?s0"
  obtain imgs_hr imgs_lr where ld1: "load_data world (loads ?s0) batch_size None None = (imgs_hr, imgs_lr)"
    by (cases "load_data world (loads ?s0) batch_size None None")
  obtain imgs_hr2 imgs_lr2 where ld2: "load_data world (Suc (loads ?s0)) batch_size None None = (imgs_hr2, imgs_lr2)"
    by (cases "load_data world (Suc (loads ?s0)) batch_size None None")
  obtain s_hr s_lr where ld3: "load_data world (Suc (Suc (loads ?s0))) 1 (Some True) (Some True) = (s_hr, s_lr)"
    by (cases "load_data world (Suc (Suc (loads ?s0))) 1 (Some True) (Some True)")
  note ep = train_epoch_init [OF ld1 ld2 ld3 refl refl refl refl refl refl refl refl refl refl
      refl refl refl, of 0]
  define fs where "fs = final_state ?res"
  have r: "raised ?res = Some ZeroDivisionError"
    using ep by (simp add: train_start)
  have f: "saved_figures (log fs) = saved_figures (log s)"
    "saved_weights (log fs) = saved_weights (log s)"
    unfolding fs_def using ep by (simp_all add: train_start)
  from r have "?res = Inl (ZeroDivisionError, fs)"
    unfolding fs_def by (rule raised_Some)
  moreover from assms have "[0..<nat epochs] = 0 # [Suc 0..<nat epochs]"
    by (simp add: upt_conv_Cons)
  ultimately have "train world init epochs batch_size 0 s = Inl (ZeroDivisionError, fs)"
    by (simp add: train_def)
  then show "raised (train world init epochs batch_size 0 s) = Some ZeroDivisionError"
    and "saved_figures (log (final_state (train world init epochs batch_size 0 s))) =
           saved_figures (log s)"
    and "saved_weights (log (final_state (train world init epochs batch_size 0 s))) =
           saved_weights (log s)"
    using f by (simp_all add: result_simps)
qed

text \<open>
  Claim C10, amended. Let the interval argument be other than 0 and let every sample
  batch be one that \<^verbatim>\<open>sample_images_new\<close> can plot. Then \<^verbatim>\<open>train\<close> returns, and the figures
  it saves are those of the epochs \<open>e\<close> that are divisible by the interval in force
  at \<open>e\<close> (the argument up to epoch 30, 10 from 31 to 100, 50 after that), one figure
  \<^verbatim>\<open>images/<e>.png\<close> each, in order; epoch 0 is among them whenever there is an epoch.
  The generator weights are saved to \<^verbatim>\<open>./saved_model/<e>.h5\<close> for the epochs \<open>e\<close>
  divisible by 500 with \<open>e > 1\<close>, and for no other. With the interval argument 0,
  \<^verbatim>\<open>train\<close> raises \<^verbatim>\<open>ZeroDivisionError\<close> at the end of its first epoch, if there is one,
  and saves neither a figure nor weights.
\<close>

theorem C10_sampling_schedule:
  assumes "interval \<noteq> 0 \<longrightarrow> (\<forall>j. drawable (load_data world j 1 (Some True) (Some True)))"
  shows "if interval = 0
         then raised (train world init epochs batch_size interval s) =
                (if 0 < epochs then Some ZeroDivisionError else None)
            \<and> saved_figures (log (final_state (train world init epochs batch_size interval s))) =
                saved_figures (log s)
            \<and> saved_weights (log (final_state (train world init epochs batch_size interval s))) =
                saved_weights (log s)
         else \<exists>s'. train world init epochs batch_size interval s = Inr s'
            \<and> saved_figures (log s') =
                saved_figures (log s) @
                  map (\<lambda>e. ''images/'' @ str e @ ''.png'')
                    (filter (\<lambda>e. e mod spec_interval interval e = 0) (map int [0..<nat epochs]))
            \<and> saved_weights (log s') =
                saved_weights (log s) @
                  map (\<lambda>e. ''./saved_model/'' @ str e @ ''.h5'')
                    (filter (\<lambda>e. e mod 500 = 0 \<and> e > 1) (map int [0..<nat epochs]))
            \<and> (if 0 < epochs
                then \<exists>later. saved_figures (log s') = saved_figures (log s) @ ''images/0.png'' # later
                else saved_figures (log s') = saved_figures (log s))"
proof (cases "interval = 0")
  case True
  show ?thesis
  proof (cases "0 < epochs")
    case pos: True
    from train_zero_interval [OF pos, of world batch_size s] True pos
    show ?thesis by simp
  next
    case False
    then have "[0..<nat epochs] = []" by simp
    then have "train world init epochs batch_size interval s =
        Inr (io_state.extend s (train_state.fields interval [] []))"
      by (simp add: train_def)
    then show ?thesis
      using True False by (simp add: result_simps train_start)
  qed
next
  case False
  with assms have draw: "\<And>j. drawable (load_data world j 1 (Some True) (Some True))"
    by blast
  let ?s0 = "io_state.extend s (train_state.fields interval [] [])"
  have inv: "0 \<le> (30 :: nat) \<Longrightarrow> sample_interval ?s0 = interval"
    by (simp add: train_start)
  from train_loop_schedule [OF False inv draw, where batch_size = batch_size
      and n = "nat epochs"]
  obtain s' where run: "train world init epochs batch_size interval s = Inr s'"
    and figs: "saved_figures (log s') =
          saved_figures (log s) @
            map (\<lambda>e. ''images/'' @ str e @ ''.png'')
              (filter (\<lambda>e. e mod spec_interval interval e = 0) (map int [0..<nat epochs]))"
    and wts: "saved_weights (log s') =
          saved_weights (log s) @
            map (\<lambda>e. ''./saved_model/'' @ str e @ ''.h5'')
              (filter (\<lambda>e. e mod 500 = 0 \<and> e > 1) (map int [0..<nat epochs]))"
    unfolding train_def train_start by blast
  have first: "if 0 < epochs
          then \<exists>later. saved_figures (log s') = saved_figures (log s) @ ''images/0.png'' # later
          else saved_figures (log s') = saved_figures (log s)"
  proof (cases "0 < epochs")
    case True
    then have "[0..<nat epochs] = 0 # [Suc 0..<nat epochs]"
      by (simp add: upt_conv_Cons)
    then have "saved_figures (log s') =
        saved_figures (log s) @ ''images/0.png'' #
          map (\<lambda>e. ''images/'' @ str e @ ''.png'')
            (filter (\<lambda>e. e mod spec_interval interval e = 0) (map int [Suc 0..<nat epochs]))"
      unfolding figs by (simp add: str_def)
    with True show ?thesis by auto
  next
    case False
    then have "[0..<nat epochs] = []" by simp
    with False show ?thesis unfolding figs by simp
  qed
  from run figs wts first False show ?thesis by auto
qed

lemma gallery_drawable: "drawable (load_data gallery_world j 1 (Some True) (Some True))"
  by (simp add: gallery_world_def drawable_def Let_def)

theorem C10_sampling_schedule_witness:
  "(5 :: int) \<noteq> 0
   \<and> (\<forall>j. drawable (load_data gallery_world j 1 (Some True) (Some True)))
   \<and> (\<exists>s'. train gallery_world init 2 1 5 fresh_state = Inr s'
         \<and> saved_figures (log s') = [''images/0.png'']
         \<and> saved_weights (log s') = [])"
proof -
  have h: "(5 :: int) \<noteq> 0 \<longrightarrow> (\<forall>j. drawable (load_data gallery_world j 1 (Some True) (Some True)))"
    using gallery_drawable by blast
  have l: "saved_figures (log fresh_state) = []" "saved_weights (log fresh_state) = []"
    by (simp_all add: fresh_state_def saved_figures_def saved_weights_def)
  have e: "map int [0..<nat 2] = [0, 1]"
    by (simp add: upt_conv_Cons)
  from C10_sampling_schedule [OF h, where epochs = 2 and batch_size = 1 and s = fresh_state]
  show ?thesis
    unfolding l e using gallery_drawable by (auto simp add: spec_interval_def str_def)
qed

text \<open>
  With the interval argument 0 the claim fails as it was stated. In a world whose
  loader returns the images it is asked for, the first epoch trains, then
  \<^verbatim>\<open>epoch % sample_interval\<close> raises \<^verbatim>\<open>ZeroDivisionError\<close>, and no sample has been saved.
\<close>

theorem C10_zero_interval_counterexample:
  "raised (train plain_world init 1 1 0 fresh_state) = Some ZeroDivisionError
   \<and> saved_figures (log (final_state (train plain_world init 1 1 0 fresh_state))) = []"
proof -
  have "(0 :: int) < 1" by simp
  from train_zero_interval(1,2) [OF this, of plain_world 1 fresh_state]
  show ?thesis
    by (simp add: fresh_state_def saved_figures_def)
qed

end
